theory Spec2Isabelle
  imports Complex_Main "HOL-Library.Word" "HOL-Library.Multiset"
begin

text \<open>
  A shallow embedding of the layered TypeScript frontend of the sailing platform: the
  \<^verbatim>\<open>Session\<close> and \<^verbatim>\<open>Equipment\<close> entities, the mapping and the \<^verbatim>\<open>getById\<close> of the two
  repositories, the validation and the aggregation helpers of \<^verbatim>\<open>SessionService\<close>, and
  retiring and reactivating in the \<^verbatim>\<open>useEquipment\<close> hook. An \<^verbatim>\<open>async\<close> function is modelled
  by its settled result, each \<^verbatim>\<open>await\<close> taking the result of the awaited call.
\<close>

section \<open>JavaScript values\<close>

subsection \<open>Numbers\<close>

text \<open>
  A TypeScript \<^verbatim>\<open>number\<close> is an IEEE 754 binary64 value: a finite value, one of the two
  infinities or NaN. A finite value is carried as the real number it denotes; the
  comparisons are exact, and the arithmetic rounds its exact result to a double
  (\<open>round_double\<close> below). The sign of a zero is not modelled.
\<close>

datatype number = Num real | PosInf | NegInf | NaN

text \<open>
  Rounding a real to binary64, to nearest with ties to even. \<open>expo x\<close> is the exponent
  \<open>e\<close> of the binade of \<open>x\<close>, that is \<open>2^e \<le> |x| < 2^(e+1)\<close>, and at least -1022, the
  exponent of the subnormal numbers; the doubles of that binade are the multiples of
  \<open>2^(e-52)\<close>. A result of magnitude \<open>2^1024\<close> or more overflows to an infinity.
\<close>

definition pow2 :: "int \<Rightarrow> real" where
  "pow2 k = (if 0 \<le> k then 2 ^ nat k else 1 / 2 ^ nat (- k))"

function expo_up :: "real \<Rightarrow> int \<Rightarrow> int" where
  "expo_up x e = (if 2 \<le> x then expo_up (x / 2) (e + 1) else e)"
  by pat_completeness auto
termination
proof (relation "measure (\<lambda>(x, e). nat \<lfloor>x\<rfloor>)")
  show "wf (measure (\<lambda>(x, e). nat \<lfloor>x\<rfloor>))" by simp
next
  fix x :: real and e :: int
  assume "2 \<le> x"
  then have "x / 2 \<le> x - 1" by simp
  then have "\<lfloor>x / 2\<rfloor> \<le> \<lfloor>x - 1\<rfloor>" by (rule floor_mono)
  moreover have "1 \<le> \<lfloor>x\<rfloor>" using \<open>2 \<le> x\<close> by linarith
  ultimately show "((x / 2, e + 1), (x, e)) \<in> measure (\<lambda>(x, e). nat \<lfloor>x\<rfloor>)"
    by simp
qed

function expo_down :: "real \<Rightarrow> int \<Rightarrow> int" where
  "expo_down x e = (if x < 1 \<and> - 1022 < e then expo_down (2 * x) (e - 1) else e)"
  by pat_completeness auto
termination
  by (relation "measure (\<lambda>(x, e). nat (e + 1022))") auto

declare expo_up.simps [simp del] expo_down.simps [simp del]

definition expo :: "real \<Rightarrow> int" where
  "expo x = (if 1 \<le> \<bar>x\<bar> then expo_up \<bar>x\<bar> 0 else expo_down \<bar>x\<bar> 0)"

definition roundTiesToEven :: "real \<Rightarrow> int" where
  "roundTiesToEven q =
     (let f = \<lfloor>q\<rfloor> in
      if q - of_int f < 1 / 2 then f
      else if 1 / 2 < q - of_int f then f + 1
      else if even f then f else f + 1)"

definition round_double :: "real \<Rightarrow> number" where
  "round_double x =
     (let u = pow2 (expo x - 52);
          y = of_int (roundTiesToEven (x / u)) * u
      in if 2 ^ 1024 \<le> \<bar>y\<bar> then (if 0 < x then PosInf else NegInf) else Num y)"

text \<open>\<^verbatim>\<open>a < b\<close>: false as soon as one side is NaN.\<close>

fun js_lt :: "number \<Rightarrow> number \<Rightarrow> bool" where
  "js_lt NaN _ = False"
| "js_lt _ NaN = False"
| "js_lt (Num a) (Num b) = (a < b)"
| "js_lt (Num _) PosInf = True"
| "js_lt (Num _) NegInf = False"
| "js_lt PosInf _ = False"
| "js_lt NegInf NegInf = False"
| "js_lt NegInf _ = True"

text \<open>\<^verbatim>\<open>a <= b\<close>: false as soon as one side is NaN, so it is not the negation of \<^verbatim>\<open>a > b\<close>.\<close>

fun js_le :: "number \<Rightarrow> number \<Rightarrow> bool" where
  "js_le NaN _ = False"
| "js_le _ NaN = False"
| "js_le (Num a) (Num b) = (a \<le> b)"
| "js_le (Num _) PosInf = True"
| "js_le (Num _) NegInf = False"
| "js_le PosInf PosInf = True"
| "js_le PosInf _ = False"
| "js_le NegInf _ = True"

definition js_gt :: "number \<Rightarrow> number \<Rightarrow> bool" where
  "js_gt a b = js_lt b a"

text \<open>\<^verbatim>\<open>a + b\<close>: the exact sum of two finite values, rounded.\<close>

fun js_add :: "number \<Rightarrow> number \<Rightarrow> number" where
  "js_add NaN _ = NaN"
| "js_add _ NaN = NaN"
| "js_add (Num a) (Num b) = round_double (a + b)"
| "js_add (Num _) PosInf = PosInf"
| "js_add (Num _) NegInf = NegInf"
| "js_add PosInf NegInf = NaN"
| "js_add PosInf _ = PosInf"
| "js_add NegInf PosInf = NaN"
| "js_add NegInf _ = NegInf"

text \<open>
  \<^verbatim>\<open>a / b\<close>: the exact quotient of two finite values, rounded. The code divides by the
  literal 2 and by a non-zero array length only; the zero of the model is the positive
  zero.
\<close>

fun js_div :: "number \<Rightarrow> number \<Rightarrow> number" where
  "js_div NaN _ = NaN"
| "js_div _ NaN = NaN"
| "js_div (Num a) (Num b) =
     (if b \<noteq> 0 then round_double (a / b)
      else if 0 < a then PosInf else if a < 0 then NegInf else NaN)"
| "js_div (Num _) PosInf = Num 0"
| "js_div (Num _) NegInf = Num 0"
| "js_div PosInf (Num b) = (if 0 \<le> b then PosInf else NegInf)"
| "js_div NegInf (Num b) = (if 0 \<le> b then NegInf else PosInf)"
| "js_div PosInf _ = NaN"
| "js_div NegInf _ = NaN"

text \<open>\<^verbatim>\<open>Number.isInteger\<close>, the meaning of "is an integer" for a number.\<close>

fun isInteger :: "number \<Rightarrow> bool" where
  "isInteger (Num a) = (of_int \<lfloor>a\<rfloor> = a)"
| "isInteger _ = False"

subsection \<open>Strings\<close>

text \<open>A string is a sequence of UTF-16 code units.\<close>

type_synonym code_unit = "16 word"
type_synonym js_string = "code_unit list"

text \<open>A string literal of the source (ASCII).\<close>

definition ascii :: "string \<Rightarrow> js_string" where
  "ascii s = map (\<lambda>c. of_char c) s"

text \<open>The white space and line terminators that \<^verbatim>\<open>String.prototype.trim\<close> removes.\<close>

definition isWhiteSpace :: "code_unit \<Rightarrow> bool" where
  "isWhiteSpace c \<longleftrightarrow>
     c \<in> set [0x0009, 0x000A, 0x000B, 0x000C, 0x000D, 0x0020, 0x00A0, 0x1680,
               0x2028, 0x2029, 0x202F, 0x205F, 0x3000, 0xFEFF]
     \<or> (0x2000 \<le> c \<and> c \<le> 0x200A)"

definition trim :: "js_string \<Rightarrow> js_string" where
  "trim s = rev (dropWhile isWhiteSpace (rev (dropWhile isWhiteSpace s)))"

subsection \<open>Errors and settled promises\<close>

text \<open>\<^verbatim>\<open>new Error(message)\<close>.\<close>

datatype js_error = Error (message: js_string)

text \<open>
  An awaited promise has settled: it was rejected with an error (\<open>Inl\<close>, what
  \<^verbatim>\<open>await\<close> throws) or fulfilled with a value (\<open>Inr\<close>).
\<close>

type_synonym 'a promise = "js_error + 'a"

section \<open>Domain types and entities\<close>

text \<open>\<^verbatim>\<open>common.types.ts\<close>\<close>

datatype WaveType = Flat | Choppy | Medium | Large

datatype EquipmentType =
  Mainsail | Jib | Gennaker | Mast | Boom | Rudder | Centerboard | Other

datatype TensionLevel = Loose | MediumTension | Tight

text \<open>
  \<^verbatim>\<open>class Session\<close>. The field \<^verbatim>\<open>id\<close> is written \<open>id'\<close>; an optional field is an
  option, with \<open>None\<close> for \<^verbatim>\<open>undefined\<close>.
\<close>

record Session =
  id' :: js_string
  date :: js_string
  location :: js_string
  windSpeedMin :: number
  windSpeedMax :: number
  waveType :: WaveType
  waveDirection :: js_string
  hoursOnWater :: number
  performanceRating :: number
  "notes" :: "js_string option"
  equipmentIds :: "js_string list"
  createdBy :: js_string
  createdAt :: js_string
  updatedAt :: js_string

definition averageWindSpeed :: "Session \<Rightarrow> number" where
  "averageWindSpeed s = js_div (js_add (windSpeedMin s) (windSpeedMax s)) (Num 2)"

definition isHeavyWeather :: "Session \<Rightarrow> bool" where
  "isHeavyWeather s \<longleftrightarrow>
     js_gt (averageWindSpeed s) (Num 20) \<or> waveType s = Large \<or> waveType s = Medium"

definition isLightWeather :: "Session \<Rightarrow> bool" where
  "isLightWeather s \<longleftrightarrow>
     js_lt (averageWindSpeed s) (Num 8) \<and> (waveType s = Flat \<or> waveType s = Choppy)"

text \<open>\<^verbatim>\<open>interface SessionResponse\<close>, the wire format of a session.\<close>

record SessionResponse =
  id' :: js_string
  date :: js_string
  location :: js_string
  wind_speed_min :: number
  wind_speed_max :: number
  wave_type :: WaveType
  wave_direction :: js_string
  hours_on_water :: number
  performance_rating :: number
  "notes" :: "js_string option"
  created_by :: js_string
  created_at :: js_string
  updated_at :: js_string

text \<open>\<^verbatim>\<open>class Equipment\<close>\<close>

record Equipment =
  id' :: js_string
  name :: js_string
  type :: EquipmentType
  manufacturer :: js_string
  model :: js_string
  purchaseDate :: "js_string option"
  "notes" :: "js_string option"
  active :: bool
  wear :: number
  ownerId :: js_string
  createdAt :: js_string
  updatedAt :: js_string
  ageInDays :: "number option"
  needsReplacement :: "bool option"

text \<open>\<^verbatim>\<open>interface EquipmentResponse\<close>, the wire format of a piece of equipment.\<close>

record EquipmentResponse =
  id' :: js_string
  name :: js_string
  type :: EquipmentType
  manufacturer :: js_string
  model :: js_string
  purchase_date :: "js_string option"
  "notes" :: "js_string option"
  active :: bool
  wear :: number
  owner_id :: js_string
  created_at :: js_string
  updated_at :: js_string
  age_in_days :: "number option"
  needs_replacement :: "bool option"

text \<open>\<^verbatim>\<open>class EquipmentSettings\<close>\<close>

record EquipmentSettings =
  id' :: js_string
  sessionId :: js_string
  forestayTension :: number
  shroudTension :: number
  mastRake :: number
  mainTension :: number
  capTension :: number
  capHole :: number
  lowersScale :: number
  mainsScale :: number
  preBend :: number
  jibHalyardTension :: TensionLevel
  cunningham :: number
  outhaul :: number
  vang :: number
  createdAt :: js_string

section \<open>Data transfer objects\<close>

text \<open>\<^verbatim>\<open>interface CreateSessionDTO\<close>\<close>

record CreateSessionDTO =
  date :: js_string
  location :: js_string
  wind_speed_min :: number
  wind_speed_max :: number
  wave_type :: WaveType
  wave_direction :: js_string
  hours_on_water :: number
  performance_rating :: number
  "notes" :: "js_string option"
  equipment_ids :: "js_string list option"

text \<open>\<^verbatim>\<open>interface UpdateSessionDTO\<close>: every field may be absent.\<close>

record UpdateSessionDTO =
  date :: "js_string option"
  location :: "js_string option"
  wind_speed_min :: "number option"
  wind_speed_max :: "number option"
  wave_type :: "WaveType option"
  wave_direction :: "js_string option"
  hours_on_water :: "number option"
  performance_rating :: "number option"
  "notes" :: "js_string option"
  equipment_ids :: "js_string list option"

text \<open>
  The payload of \<^verbatim>\<open>createEquipmentSettings\<close> is typed \<^verbatim>\<open>any\<close> and read by key
  (\<^verbatim>\<open>data[tension]\<close>): a map from the key to the number stored under it, \<open>None\<close>
  where the key reads \<^verbatim>\<open>undefined\<close>.
\<close>

type_synonym settings_data = "js_string \<rightharpoonup> number"

section \<open>Repositories\<close>

subsection \<open>The HTTP client\<close>

text \<open>
  \<^verbatim>\<open>interceptors.ts\<close>: the response interceptor rejects every failed request with
  \<^verbatim>\<open>new Error(message)\<close>, the message being the first truthy one of
  \<^verbatim>\<open>error.response?.data?.detail\<close>, \<^verbatim>\<open>error.response?.data?.message\<close>, \<^verbatim>\<open>error.message\<close>
  and a fixed text. The status of the response is not kept in the error.
\<close>

record AxiosError =
  response_status :: "nat option"
  response_data_detail :: "js_string option"
  response_data_message :: "js_string option"
  error_message :: js_string

definition rejectResponse :: "AxiosError \<Rightarrow> js_error" where
  "rejectResponse error =
     Error (case response_data_detail error of
              Some (c # cs) \<Rightarrow> c # cs
            | _ \<Rightarrow>
              (case response_data_message error of
                 Some (c # cs) \<Rightarrow> c # cs
               | _ \<Rightarrow>
                 (case error_message error of
                    c # cs \<Rightarrow> c # cs
                  | [] \<Rightarrow> ascii ''An unexpected error occurred'')))"

text \<open>
  \<^verbatim>\<open>ApiClient.get<T>(url)\<close>: the class is outside the sources at hand, so the request
  is a parameter of the repositories, a function from the URL to the settled promise.
\<close>

type_synonym 'r api_get = "js_string \<Rightarrow> 'r promise"

subsection \<open>\<^verbatim>\<open>SessionRepository\<close>\<close>

definition sessions_basePath :: js_string where
  "sessions_basePath = ascii ''/sessions''"

definition SessionRepository_mapToEntity :: "SessionResponse \<Rightarrow> Session" where
  "SessionRepository_mapToEntity data =
     \<lparr> Session.id' = SessionResponse.id' data,
       Session.date = SessionResponse.date data,
       Session.location = SessionResponse.location data,
       windSpeedMin = SessionResponse.wind_speed_min data,
       windSpeedMax = SessionResponse.wind_speed_max data,
       waveType = SessionResponse.wave_type data,
       waveDirection = SessionResponse.wave_direction data,
       hoursOnWater = SessionResponse.hours_on_water data,
       performanceRating = SessionResponse.performance_rating data,
       Session.notes = SessionResponse.notes data,
       equipmentIds = [],
       createdBy = SessionResponse.created_by data,
       Session.createdAt = SessionResponse.created_at data,
       Session.updatedAt = SessionResponse.updated_at data \<rparr>"

text \<open>\<^verbatim>\<open>try { ... } catch (error) { return null; }\<close>: \<open>None\<close> is \<^verbatim>\<open>null\<close>.\<close>

definition SessionRepository_getById ::
  "SessionResponse api_get \<Rightarrow> js_string \<Rightarrow> Session option promise" where
  "SessionRepository_getById apiClient_get i =
     (case apiClient_get (sessions_basePath @ ascii ''/'' @ i) of
        Inr response \<Rightarrow> Inr (Some (SessionRepository_mapToEntity response))
      | Inl error \<Rightarrow> Inr None)"

subsection \<open>\<^verbatim>\<open>EquipmentRepository\<close>\<close>

definition equipment_basePath :: js_string where
  "equipment_basePath = ascii ''/equipment''"

definition EquipmentRepository_mapToEntity :: "EquipmentResponse \<Rightarrow> Equipment" where
  "EquipmentRepository_mapToEntity data =
     \<lparr> Equipment.id' = EquipmentResponse.id' data,
       Equipment.name = EquipmentResponse.name data,
       Equipment.type = EquipmentResponse.type data,
       Equipment.manufacturer = EquipmentResponse.manufacturer data,
       Equipment.model = EquipmentResponse.model data,
       purchaseDate = EquipmentResponse.purchase_date data,
       Equipment.notes = EquipmentResponse.notes data,
       Equipment.active = EquipmentResponse.active data,
       Equipment.wear = EquipmentResponse.wear data,
       ownerId = EquipmentResponse.owner_id data,
       Equipment.createdAt = EquipmentResponse.created_at data,
       Equipment.updatedAt = EquipmentResponse.updated_at data,
       ageInDays = EquipmentResponse.age_in_days data,
       needsReplacement = EquipmentResponse.needs_replacement data \<rparr>"

definition EquipmentRepository_getById ::
  "EquipmentResponse api_get \<Rightarrow> js_string \<Rightarrow> Equipment option promise" where
  "EquipmentRepository_getById apiClient_get i =
     (case apiClient_get (equipment_basePath @ ascii ''/'' @ i) of
        Inr response \<Rightarrow> Inr (Some (EquipmentRepository_mapToEntity response))
      | Inl error \<Rightarrow> Inr None)"

section \<open>\<^verbatim>\<open>SessionService\<close>\<close>

text \<open>
  \<^verbatim>\<open>interface ISessionRepository\<close>, the methods that the service functions below call.
  The service gets its repository through the constructor.
\<close>

record ISessionRepository =
  create :: "CreateSessionDTO \<Rightarrow> Session promise"
  getById :: "js_string \<Rightarrow> Session option promise"
  update :: "js_string \<Rightarrow> UpdateSessionDTO \<Rightarrow> Session promise"
  createSettings :: "js_string \<Rightarrow> settings_data \<Rightarrow> EquipmentSettings promise"

text \<open>
  A service method returns the repository calls that it made, in order, with its settled
  promise. A method that throws in its validation has made no call.
\<close>

datatype repo_call =
  Create CreateSessionDTO
| GetById js_string
| Update js_string UpdateSessionDTO
| CreateSettings js_string settings_data

type_synonym 'a traced = "repo_call list \<times> 'a promise"

definition throw :: "string \<Rightarrow> 'a traced" where
  "throw msg = ([], Inl (Error (ascii msg)))"

definition createSession :: "ISessionRepository \<Rightarrow> CreateSessionDTO \<Rightarrow> Session traced" where
  "createSession repository data =
     (if CreateSessionDTO.location data = []
         \<or> length (trim (CreateSessionDTO.location data)) = 0
      then throw ''Location is required''
      else if js_lt (CreateSessionDTO.wind_speed_min data) (Num 0)
         \<or> js_lt (CreateSessionDTO.wind_speed_max data) (Num 0)
      then throw ''Wind speeds cannot be negative''
      else if js_gt (CreateSessionDTO.wind_speed_min data) (CreateSessionDTO.wind_speed_max data)
      then throw ''Minimum wind speed cannot exceed maximum''
      else if js_le (CreateSessionDTO.hours_on_water data) (Num 0)
         \<or> js_gt (CreateSessionDTO.hours_on_water data) (Num 12)
      then throw ''Hours on water must be between 0 and 12''
      else if js_lt (CreateSessionDTO.performance_rating data) (Num 1)
         \<or> js_gt (CreateSessionDTO.performance_rating data) (Num 5)
      then throw ''Performance rating must be between 1 and 5''
      else ([Create data], create repository data))"

definition getSessionById :: "ISessionRepository \<Rightarrow> js_string \<Rightarrow> Session option traced" where
  "getSessionById repository i = ([GetById i], getById repository i)"

text \<open>A check of \<^verbatim>\<open>updateSession\<close> runs only if its fields are not \<^verbatim>\<open>undefined\<close>.\<close>

definition updateSession ::
  "ISessionRepository \<Rightarrow> js_string \<Rightarrow> UpdateSessionDTO \<Rightarrow> Session traced" where
  "updateSession repository i data =
     (if (case (UpdateSessionDTO.wind_speed_min data, UpdateSessionDTO.wind_speed_max data) of
            (Some wmin, Some wmax) \<Rightarrow> js_gt wmin wmax
          | _ \<Rightarrow> False)
      then throw ''Minimum wind speed cannot exceed maximum''
      else if (case UpdateSessionDTO.hours_on_water data of
                 Some h \<Rightarrow> js_le h (Num 0) \<or> js_gt h (Num 12)
               | None \<Rightarrow> False)
      then throw ''Hours on water must be between 0 and 12''
      else if (case UpdateSessionDTO.performance_rating data of
                 Some r \<Rightarrow> js_lt r (Num 1) \<or> js_gt r (Num 5)
               | None \<Rightarrow> False)
      then throw ''Performance rating must be between 1 and 5''
      else ([Update i data], update repository i data))"

definition tensions :: "string list" where
  "tensions =
     [''forestay_tension'', ''shroud_tension'', ''main_tension'',
      ''cap_tension'', ''lowers_scale'', ''mains_scale'',
      ''cunningham'', ''outhaul'', ''vang'']"

text \<open>
  The loop over \<^verbatim>\<open>tensions\<close>: the error of the first key whose value is out of range,
  \<open>None\<close> if the loop ends without throwing.
\<close>

fun checkTensions :: "string list \<Rightarrow> settings_data \<Rightarrow> js_error option" where
  "checkTensions [] data = None"
| "checkTensions (tension # rest) data =
     (case data (ascii tension) of
        Some v \<Rightarrow>
          if js_lt v (Num 0) \<or> js_gt v (Num 10)
          then Some (Error (ascii (tension @ '' must be between 0 and 10'')))
          else checkTensions rest data
      | None \<Rightarrow> checkTensions rest data)"

definition createEquipmentSettings ::
  "ISessionRepository \<Rightarrow> js_string \<Rightarrow> settings_data \<Rightarrow> EquipmentSettings traced" where
  "createEquipmentSettings repository sid data =
     (case checkTensions tensions data of
        Some error \<Rightarrow> ([], Inl error)
      | None \<Rightarrow>
          if (case data (ascii ''mast_rake'') of
                Some v \<Rightarrow> js_lt v (Num (- 5)) \<or> js_gt v (Num 30)
              | None \<Rightarrow> False)
          then throw ''Mast rake must be between -5 and 30 degrees''
          else ([CreateSettings sid data], createSettings repository sid data))"

text \<open>\<^verbatim>\<open>condition: 'heavy' | 'light' | 'medium'\<close>: the type leaves no other case.\<close>

datatype condition = heavy | light | medium

fun getSessionsByCondition :: "Session list \<Rightarrow> condition \<Rightarrow> Session list" where
  "getSessionsByCondition sessions heavy = filter (\<lambda>s. isHeavyWeather s) sessions"
| "getSessionsByCondition sessions light = filter (\<lambda>s. isLightWeather s) sessions"
| "getSessionsByCondition sessions medium =
     filter (\<lambda>s. \<not> isHeavyWeather s \<and> \<not> isLightWeather s) sessions"

text \<open>
  \<^verbatim>\<open>Array.prototype.reduce\<close> with an initial value is a left fold. An array has fewer
  than 2^32 elements, so its length is a double.
\<close>

definition calculateAveragePerformance :: "Session list \<Rightarrow> number" where
  "calculateAveragePerformance sessions =
     (if length sessions = 0 then Num 0
      else let total = foldl (\<lambda>sum s. js_add sum (performanceRating s)) (Num 0) sessions
           in js_div total (Num (real (length sessions))))"

definition calculateTotalHours :: "Session list \<Rightarrow> number" where
  "calculateTotalHours sessions =
     foldl (\<lambda>sum s. js_add sum (hoursOnWater s)) (Num 0) sessions"

section \<open>\<^verbatim>\<open>EquipmentService\<close> and the \<^verbatim>\<open>useEquipment\<close> hook\<close>

text \<open>\<^verbatim>\<open>interface EquipmentStatisticsResponse\<close>\<close>

record EquipmentStatisticsResponse =
  total_equipment :: number
  active_equipment :: number
  retired_equipment :: number
  equipment_by_type :: "js_string \<rightharpoonup> number"
  oldest_equipment :: "js_string option"
  newest_equipment :: "js_string option"
  most_worn_equipment :: "(js_string \<rightharpoonup> number) option"

text \<open>
  \<^verbatim>\<open>interface IEquipmentRepository\<close>, the methods that retiring and reactivating call.
  \<^verbatim>\<open>EquipmentRepository.retire\<close> and \<^verbatim>\<open>reactivate\<close> send one PATCH request and return
  \<^verbatim>\<open>true\<close>; what the backend answers is the settled promise.
\<close>

record IEquipmentRepository =
  retire :: "js_string \<Rightarrow> bool promise"
  reactivate :: "js_string \<Rightarrow> bool promise"
  getStatistics :: "EquipmentStatisticsResponse promise"

definition EquipmentService_retireEquipment ::
  "IEquipmentRepository \<Rightarrow> js_string \<Rightarrow> bool promise" where
  "EquipmentService_retireEquipment repository i = retire repository i"

definition EquipmentService_reactivateEquipment ::
  "IEquipmentRepository \<Rightarrow> js_string \<Rightarrow> bool promise" where
  "EquipmentService_reactivateEquipment repository i = reactivate repository i"

definition EquipmentService_getEquipmentStatistics ::
  "IEquipmentRepository \<Rightarrow> EquipmentStatisticsResponse promise" where
  "EquipmentService_getEquipmentStatistics repository = getStatistics repository"

text \<open>
  The state of the hook. The array \<^verbatim>\<open>equipment\<close> holds references to
  \<^verbatim>\<open>Equipment\<close> objects, which retiring and reactivating mutate in place: \<open>objects\<close> is
  the store, from a reference to the object it points to, and \<open>equipment\<close> the array of
  references.
\<close>

type_synonym ref = nat

record UseEquipment =
  objects :: "ref \<Rightarrow> Equipment"
  equipment :: "ref list"
  loading :: bool
  error :: "js_string option"
  statistics :: "EquipmentStatisticsResponse option"

text \<open>
  \<^verbatim>\<open>retireEquipment\<close> of the hook. The function closes over the array \<^verbatim>\<open>equipment\<close>
  of the render that created it (\<open>captured\<close>), and \<^verbatim>\<open>setEquipment(prev => [...prev])\<close>
  stores a copy of the current array, which holds the same references.
\<close>

definition useEquipment_retireEquipment ::
  "IEquipmentRepository \<Rightarrow> ref list \<Rightarrow> js_string \<Rightarrow> UseEquipment
     \<Rightarrow> UseEquipment \<times> unit promise" where
  "useEquipment_retireEquipment repository captured i st =
     (let st0 = st\<lparr>error := None\<rparr> in
      case EquipmentService_retireEquipment repository i of
        Inl err \<Rightarrow> (st0\<lparr>error := Some (message err)\<rparr>, Inl err)
      | Inr _ \<Rightarrow>
          let st1 =
            (case find (\<lambda>e. Equipment.id' (objects st0 e) = i) captured of
               Some updatedEquipment \<Rightarrow>
                 st0\<lparr>objects := (objects st0)
                        (updatedEquipment :=
                           (objects st0 updatedEquipment)\<lparr>Equipment.active := False\<rparr>),
                     equipment := equipment st0\<rparr>
             | None \<Rightarrow> st0)
          in
          (case EquipmentService_getEquipmentStatistics repository of
             Inl err \<Rightarrow> (st1\<lparr>error := Some (message err)\<rparr>, Inl err)
           | Inr newStats \<Rightarrow> (st1\<lparr>statistics := Some newStats\<rparr>, Inr ())))"

definition useEquipment_reactivateEquipment ::
  "IEquipmentRepository \<Rightarrow> ref list \<Rightarrow> js_string \<Rightarrow> UseEquipment
     \<Rightarrow> UseEquipment \<times> unit promise" where
  "useEquipment_reactivateEquipment repository captured i st =
     (let st0 = st\<lparr>error := None\<rparr> in
      case EquipmentService_reactivateEquipment repository i of
        Inl err \<Rightarrow> (st0\<lparr>error := Some (message err)\<rparr>, Inl err)
      | Inr _ \<Rightarrow>
          let st1 =
            (case find (\<lambda>e. Equipment.id' (objects st0 e) = i) captured of
               Some updatedEquipment \<Rightarrow>
                 st0\<lparr>objects := (objects st0)
                        (updatedEquipment :=
                           (objects st0 updatedEquipment)\<lparr>Equipment.active := True\<rparr>),
                     equipment := equipment st0\<rparr>
             | None \<Rightarrow> st0)
          in
          (case EquipmentService_getEquipmentStatistics repository of
             Inl err \<Rightarrow> (st1\<lparr>error := Some (message err)\<rparr>, Inl err)
           | Inr newStats \<Rightarrow> (st1\<lparr>statistics := Some newStats\<rparr>, Inr ())))"

section \<open>Reference notions\<close>

text \<open>The arithmetic mean of real numbers: the sum divided by the count.\<close>

definition arithmetic_mean :: "real list \<Rightarrow> real" where
  "arithmetic_mean xs = sum_list xs / real (length xs)"

section \<open>Example values\<close>

text \<open>The values at which the theorems below are instantiated.\<close>

definition example_session :: Session where
  "example_session =
     \<lparr> Session.id' = ascii ''s-1'', Session.date = ascii ''2024-06-01'',
       Session.location = ascii ''Kiel'', windSpeedMin = Num 10, windSpeedMax = Num 15,
       waveType = Choppy, waveDirection = ascii ''SW'', hoursOnWater = Num 3,
       performanceRating = Num 4, Session.notes = None, equipmentIds = [],
       createdBy = ascii ''u-1'', Session.createdAt = ascii ''2024-06-01T18:00:00'',
       Session.updatedAt = ascii ''2024-06-01T18:00:00'' \<rparr>"

definition example_create :: CreateSessionDTO where
  "example_create =
     \<lparr> CreateSessionDTO.date = ascii ''2024-06-01'',
       CreateSessionDTO.location = ascii ''Kiel'',
       CreateSessionDTO.wind_speed_min = Num 10, CreateSessionDTO.wind_speed_max = Num 15,
       CreateSessionDTO.wave_type = Choppy, CreateSessionDTO.wave_direction = ascii ''SW'',
       CreateSessionDTO.hours_on_water = Num 3, CreateSessionDTO.performance_rating = Num 4,
       CreateSessionDTO.notes = None, CreateSessionDTO.equipment_ids = None \<rparr>"

definition example_update :: UpdateSessionDTO where
  "example_update =
     \<lparr> UpdateSessionDTO.date = None, UpdateSessionDTO.location = None,
       UpdateSessionDTO.wind_speed_min = None, UpdateSessionDTO.wind_speed_max = None,
       UpdateSessionDTO.wave_type = None, UpdateSessionDTO.wave_direction = None,
       UpdateSessionDTO.hours_on_water = None, UpdateSessionDTO.performance_rating = None,
       UpdateSessionDTO.notes = None, UpdateSessionDTO.equipment_ids = None \<rparr>"

definition example_settings_entity :: EquipmentSettings where
  "example_settings_entity =
     \<lparr> EquipmentSettings.id' = ascii ''es-1'', sessionId = ascii ''s-1'',
       forestayTension = Num 5, shroudTension = Num 5, mastRake = Num 0,
       mainTension = Num 0, capTension = Num 0, capHole = Num 0, lowersScale = Num 0,
       mainsScale = Num 0, preBend = Num 0, jibHalyardTension = MediumTension,
       cunningham = Num 5, outhaul = Num 5, vang = Num 5,
       EquipmentSettings.createdAt = ascii ''2024-06-01T18:00:00'' \<rparr>"

text \<open>A repository stub, as a test passes one to the constructor of the service.\<close>

definition stub_repository :: ISessionRepository where
  "stub_repository =
     \<lparr> create = (\<lambda>data. Inr example_session),
       getById = (\<lambda>i. Inr (Some example_session)),
       update = (\<lambda>i data. Inr example_session),
       createSettings = (\<lambda>sid data. Inr example_settings_entity) \<rparr>"

text \<open>A backend that answers every GET with 404 and the detail "Not found".\<close>

definition not_found :: AxiosError where
  "not_found =
     \<lparr> response_status = Some 404, response_data_detail = Some (ascii ''Not found''),
       response_data_message = None,
       error_message = ascii ''Request failed with status code 404'' \<rparr>"

definition get_not_found :: "'r api_get" where
  "get_not_found url = Inl (rejectResponse not_found)"

definition example_equipment :: Equipment where
  "example_equipment =
     \<lparr> Equipment.id' = ascii ''eq-1'', Equipment.name = ascii ''Main 1'',
       Equipment.type = Mainsail, Equipment.manufacturer = ascii ''North'',
       Equipment.model = ascii ''3Di'', purchaseDate = None, Equipment.notes = None,
       Equipment.active = True, Equipment.wear = Num 12, ownerId = ascii ''u-1'',
       Equipment.createdAt = ascii ''2024-01-01T00:00:00'',
       Equipment.updatedAt = ascii ''2024-01-01T00:00:00'',
       ageInDays = None, needsReplacement = None \<rparr>"

definition example_statistics :: EquipmentStatisticsResponse where
  "example_statistics =
     \<lparr> total_equipment = Num 2, active_equipment = Num 2, retired_equipment = Num 0,
       equipment_by_type = Map.empty, oldest_equipment = None, newest_equipment = None,
       most_worn_equipment = None \<rparr>"

definition stub_equipment_repository :: IEquipmentRepository where
  "stub_equipment_repository =
     \<lparr> retire = (\<lambda>i. Inr True), reactivate = (\<lambda>i. Inr True),
       getStatistics = Inr example_statistics \<rparr>"

text \<open>
  A hook state with two entries: reference 0 is the equipment "eq-1", reference 1 (and
  every other one) the equipment "eq-2".
\<close>

definition example_state :: UseEquipment where
  "example_state =
     \<lparr> objects = (\<lambda>r. if r = 0 then example_equipment
                      else example_equipment\<lparr>Equipment.id' := ascii ''eq-2''\<rparr>),
       equipment = [0, 1], loading = False, error = None, statistics = None \<rparr>"

text \<open>The example state after retiring "eq-1", and after reactivating it then.\<close>

definition example_retired :: UseEquipment where
  "example_retired =
     fst (useEquipment_retireEquipment stub_equipment_repository
            (equipment example_state) (ascii ''eq-1'') example_state)"

definition example_reactivated :: UseEquipment where
  "example_reactivated =
     fst (useEquipment_reactivateEquipment stub_equipment_repository
            (equipment example_retired) (ascii ''eq-1'') example_retired)"

section \<open>Properties\<close>

subsection \<open>Numbers\<close>

lemma js_le_of_not_gt: "a \<noteq> NaN \<Longrightarrow> b \<noteq> NaN \<Longrightarrow> \<not> js_gt a b \<Longrightarrow> js_le a b"
  by (cases a; cases b) (simp_all add: js_gt_def)

lemma js_range_iff:
  "h \<noteq> NaN \<Longrightarrow>
   (\<not> (js_le h (Num lo) \<or> js_gt h (Num hi))) = (js_lt (Num lo) h \<and> js_le h (Num hi))"
  by (cases h) (auto simp: js_gt_def)

subsection \<open>The validation of \<^verbatim>\<open>createSession\<close> and \<^verbatim>\<open>updateSession\<close>\<close>

text \<open>The payload reaches the repository exactly when none of the five checks throws.\<close>

lemma createSession_passes_iff:
  "createSession repository data = ([Create data], create repository data) \<longleftrightarrow>
     \<not> (CreateSessionDTO.location data = [] \<or> length (trim (CreateSessionDTO.location data)) = 0)
     \<and> \<not> (js_lt (CreateSessionDTO.wind_speed_min data) (Num 0)
           \<or> js_lt (CreateSessionDTO.wind_speed_max data) (Num 0))
     \<and> \<not> js_gt (CreateSessionDTO.wind_speed_min data) (CreateSessionDTO.wind_speed_max data)
     \<and> \<not> (js_le (CreateSessionDTO.hours_on_water data) (Num 0)
           \<or> js_gt (CreateSessionDTO.hours_on_water data) (Num 12))
     \<and> \<not> (js_lt (CreateSessionDTO.performance_rating data) (Num 1)
           \<or> js_gt (CreateSessionDTO.performance_rating data) (Num 5))"
  unfolding createSession_def throw_def by (simp split: if_splits)

lemma createSession_throws_or_passes:
  "(\<exists>msg. createSession repository data = throw msg)
   \<or> createSession repository data = ([Create data], create repository data)"
  unfolding createSession_def by (simp split: if_splits) blast

lemma throw_not_passes: "(throw msg :: 'a traced) \<noteq> (c # cs, r)"
  by (simp add: throw_def)

lemma createSession_throws_iff:
  "(\<exists>msg. createSession repository data = throw msg) \<longleftrightarrow>
   createSession repository data \<noteq> ([Create data], create repository data)"
  using createSession_throws_or_passes [of repository data] throw_not_passes
  by metis

lemma updateSession_passes_iff:
  "updateSession repository i data = ([Update i data], update repository i data) \<longleftrightarrow>
     \<not> (case (UpdateSessionDTO.wind_speed_min data, UpdateSessionDTO.wind_speed_max data) of
            (Some wmin, Some wmax) \<Rightarrow> js_gt wmin wmax
          | _ \<Rightarrow> False)
     \<and> \<not> (case UpdateSessionDTO.hours_on_water data of
                 Some h \<Rightarrow> js_le h (Num 0) \<or> js_gt h (Num 12)
               | None \<Rightarrow> False)
     \<and> \<not> (case UpdateSessionDTO.performance_rating data of
                 Some r \<Rightarrow> js_lt r (Num 1) \<or> js_gt r (Num 5)
               | None \<Rightarrow> False)"
  unfolding updateSession_def throw_def by (simp split: if_splits)

lemma updateSession_throws_or_passes:
  "(\<exists>msg. updateSession repository i data = throw msg)
   \<or> updateSession repository i data = ([Update i data], update repository i data)"
  unfolding updateSession_def by (simp split: if_splits) blast

lemma updateSession_throws_iff:
  "(\<exists>msg. updateSession repository i data = throw msg) \<longleftrightarrow>
   updateSession repository i data \<noteq> ([Update i data], update repository i data)"
  using updateSession_throws_or_passes [of repository i data] throw_not_passes
  by metis

lemma createSession_min_gt_max_message:
  "js_gt (CreateSessionDTO.wind_speed_min data) (CreateSessionDTO.wind_speed_max data)
   \<Longrightarrow> trim (CreateSessionDTO.location data) \<noteq> []
   \<Longrightarrow> \<not> js_lt (CreateSessionDTO.wind_speed_min data) (Num 0)
   \<Longrightarrow> \<not> js_lt (CreateSessionDTO.wind_speed_max data) (Num 0)
   \<Longrightarrow> createSession repository data = throw ''Minimum wind speed cannot exceed maximum''"
  unfolding createSession_def by (auto simp: trim_def)

lemmas session_eval = createSession_def updateSession_def example_create_def example_update_def
  stub_repository_def trim_def ascii_def isWhiteSpace_def js_gt_def throw_def

text \<open>
  C1 (as amended). A create payload whose \<^verbatim>\<open>wind_speed_min\<close> exceeds its
  \<^verbatim>\<open>wind_speed_max\<close> makes \<^verbatim>\<open>createSession\<close> throw before any repository call. The
  message is "Minimum wind speed cannot exceed maximum" when the location is not blank
  and neither wind speed is negative; a blank location throws "Location is required"
  first, and a negative wind speed "Wind speeds cannot be negative".
  A payload that passes the validation, with wind speeds that are not NaN, has
  \<^verbatim>\<open>wind_speed_min <= wind_speed_max\<close>.
\<close>

theorem createSession_min_exceeds_max:
  "(js_gt (CreateSessionDTO.wind_speed_min data) (CreateSessionDTO.wind_speed_max data) \<longrightarrow>
      (\<exists>msg. createSession repository data = throw msg))
   \<and> (js_gt (CreateSessionDTO.wind_speed_min data) (CreateSessionDTO.wind_speed_max data)
        \<and> trim (CreateSessionDTO.location data) \<noteq> []
        \<and> \<not> js_lt (CreateSessionDTO.wind_speed_min data) (Num 0)
        \<and> \<not> js_lt (CreateSessionDTO.wind_speed_max data) (Num 0) \<longrightarrow>
      createSession repository data = throw ''Minimum wind speed cannot exceed maximum'')
   \<and> (trim (CreateSessionDTO.location data) = [] \<longrightarrow>
      createSession repository data = throw ''Location is required'')
   \<and> (trim (CreateSessionDTO.location data) \<noteq> []
        \<and> (js_lt (CreateSessionDTO.wind_speed_min data) (Num 0)
            \<or> js_lt (CreateSessionDTO.wind_speed_max data) (Num 0)) \<longrightarrow>
      createSession repository data = throw ''Wind speeds cannot be negative'')
   \<and> (createSession repository data = ([Create data], create repository data)
        \<and> CreateSessionDTO.wind_speed_min data \<noteq> NaN
        \<and> CreateSessionDTO.wind_speed_max data \<noteq> NaN \<longrightarrow>
      js_le (CreateSessionDTO.wind_speed_min data) (CreateSessionDTO.wind_speed_max data))"
proof (intro conjI impI)
  assume "js_gt (CreateSessionDTO.wind_speed_min data) (CreateSessionDTO.wind_speed_max data)"
  then show "\<exists>msg. createSession repository data = throw msg"
    by (simp add: createSession_throws_iff createSession_passes_iff)
next
  assume "js_gt (CreateSessionDTO.wind_speed_min data) (CreateSessionDTO.wind_speed_max data)
        \<and> trim (CreateSessionDTO.location data) \<noteq> []
        \<and> \<not> js_lt (CreateSessionDTO.wind_speed_min data) (Num 0)
        \<and> \<not> js_lt (CreateSessionDTO.wind_speed_max data) (Num 0)"
  then show "createSession repository data = throw ''Minimum wind speed cannot exceed maximum''"
    by (simp add: createSession_min_gt_max_message)
next
  assume "trim (CreateSessionDTO.location data) = []"
  then show "createSession repository data = throw ''Location is required''"
    by (simp add: createSession_def)
next
  assume "trim (CreateSessionDTO.location data) \<noteq> []
        \<and> (js_lt (CreateSessionDTO.wind_speed_min data) (Num 0)
            \<or> js_lt (CreateSessionDTO.wind_speed_max data) (Num 0))"
  then show "createSession repository data = throw ''Wind speeds cannot be negative''"
    unfolding createSession_def by (auto simp: trim_def)
next
  assume a: "createSession repository data = ([Create data], create repository data)
        \<and> CreateSessionDTO.wind_speed_min data \<noteq> NaN
        \<and> CreateSessionDTO.wind_speed_max data \<noteq> NaN"
  then have "\<not> js_gt (CreateSessionDTO.wind_speed_min data) (CreateSessionDTO.wind_speed_max data)"
    by (simp add: createSession_passes_iff)
  with a show "js_le (CreateSessionDTO.wind_speed_min data) (CreateSessionDTO.wind_speed_max data)"
    by (simp add: js_le_of_not_gt)
qed

theorem createSession_min_exceeds_max_witness:
  "js_gt (Num 20) (Num 10)
   \<and> createSession stub_repository
        (example_create\<lparr>CreateSessionDTO.wind_speed_min := Num 20,
                         CreateSessionDTO.wind_speed_max := Num 10\<rparr>)
      = throw ''Minimum wind speed cannot exceed maximum''
   \<and> createSession stub_repository example_create = ([Create example_create], Inr example_session)
   \<and> js_le (Num 10) (Num 15)
   \<and> createSession stub_repository (example_create\<lparr>CreateSessionDTO.location := ascii ''  ''\<rparr>)
      = throw ''Location is required''
   \<and> createSession stub_repository (example_create\<lparr>CreateSessionDTO.wind_speed_min := Num (- 1)\<rparr>)
      = throw ''Wind speeds cannot be negative''"
proof -
  have 1: "js_gt (Num 20) (Num 10)" by (simp add: js_gt_def)
  have 2: "createSession stub_repository
        (example_create\<lparr>CreateSessionDTO.wind_speed_min := Num 20,
                         CreateSessionDTO.wind_speed_max := Num 10\<rparr>)
      = throw ''Minimum wind speed cannot exceed maximum''"
    using createSession_min_exceeds_max
      [of "example_create\<lparr>CreateSessionDTO.wind_speed_min := Num 20,
                            CreateSessionDTO.wind_speed_max := Num 10\<rparr>" stub_repository]
    by (simp add: example_create_def trim_def ascii_def isWhiteSpace_def js_gt_def)
  have 3: "createSession stub_repository example_create
      = ([Create example_create], Inr example_session)"
    by (simp add: session_eval)
  have 4: "js_le (Num 10) (Num 15)"
    using createSession_min_exceeds_max [of example_create stub_repository] 3
    by (simp add: example_create_def stub_repository_def)
  have 5: "createSession stub_repository
        (example_create\<lparr>CreateSessionDTO.location := ascii ''  ''\<rparr>)
      = throw ''Location is required''"
    using createSession_min_exceeds_max
      [of "example_create\<lparr>CreateSessionDTO.location := ascii ''  ''\<rparr>" stub_repository]
    by (simp add: example_create_def trim_def ascii_def isWhiteSpace_def)
  have 6: "createSession stub_repository
        (example_create\<lparr>CreateSessionDTO.wind_speed_min := Num (- 1)\<rparr>)
      = throw ''Wind speeds cannot be negative''"
    using createSession_min_exceeds_max
      [of "example_create\<lparr>CreateSessionDTO.wind_speed_min := Num (- 1)\<rparr>" stub_repository]
    by (simp add: example_create_def trim_def ascii_def isWhiteSpace_def)
  from 1 2 3 4 5 6 show ?thesis by blast
qed

theorem createSession_min_exceeds_max_counterexample:
  "js_gt (Num 20) (Num 10)
   \<and> createSession stub_repository
        (example_create\<lparr>CreateSessionDTO.location := [],
                         CreateSessionDTO.wind_speed_min := Num 20,
                         CreateSessionDTO.wind_speed_max := Num 10\<rparr>)
      = ([], Inl (Error (ascii ''Location is required'')))
   \<and> ascii ''Location is required'' \<noteq> ascii ''Minimum wind speed cannot exceed maximum''
   \<and> createSession stub_repository (example_create\<lparr>CreateSessionDTO.wind_speed_min := NaN\<rparr>)
      = ([Create (example_create\<lparr>CreateSessionDTO.wind_speed_min := NaN\<rparr>)], Inr example_session)
   \<and> \<not> js_le NaN (Num 15)"
  by (simp add: session_eval)

text \<open>
  C2 (as amended). \<^verbatim>\<open>createSession\<close>, and \<^verbatim>\<open>updateSession\<close> when the field is present,
  throw before any repository call for a \<^verbatim>\<open>performance_rating\<close> below 1 or above 5 (so
  for 0 and for 6), and accept every rating from 1 to 5, whole or not, in a payload
  whose other fields pass; an absent rating is not checked by \<^verbatim>\<open>updateSession\<close>. The
  code has no check that the rating is an integer.
\<close>

theorem session_rating_range:
  "(js_lt r (Num 1) \<or> js_gt r (Num 5) \<longrightarrow>
      (\<exists>msg. createSession repository (d\<lparr>CreateSessionDTO.performance_rating := r\<rparr>) = throw msg)
      \<and> (\<exists>msg. updateSession repository i (u\<lparr>UpdateSessionDTO.performance_rating := Some r\<rparr>)
                 = throw msg))
   \<and> (createSession repository d = ([Create d], create repository d) \<and> 1 \<le> x \<and> x \<le> 5 \<longrightarrow>
      createSession repository (d\<lparr>CreateSessionDTO.performance_rating := Num x\<rparr>)
      = ([Create (d\<lparr>CreateSessionDTO.performance_rating := Num x\<rparr>)],
         create repository (d\<lparr>CreateSessionDTO.performance_rating := Num x\<rparr>)))
   \<and> (updateSession repository i u = ([Update i u], update repository i u) \<and> 1 \<le> x \<and> x \<le> 5 \<longrightarrow>
      updateSession repository i (u\<lparr>UpdateSessionDTO.performance_rating := Some (Num x)\<rparr>)
      = ([Update i (u\<lparr>UpdateSessionDTO.performance_rating := Some (Num x)\<rparr>)],
         update repository i (u\<lparr>UpdateSessionDTO.performance_rating := Some (Num x)\<rparr>)))
   \<and> (updateSession repository i u = ([Update i u], update repository i u) \<longrightarrow>
      updateSession repository i (u\<lparr>UpdateSessionDTO.performance_rating := None\<rparr>)
      = ([Update i (u\<lparr>UpdateSessionDTO.performance_rating := None\<rparr>)],
         update repository i (u\<lparr>UpdateSessionDTO.performance_rating := None\<rparr>)))"
proof (intro conjI impI)
  assume "js_lt r (Num 1) \<or> js_gt r (Num 5)"
  then show "\<exists>msg. createSession repository (d\<lparr>CreateSessionDTO.performance_rating := r\<rparr>)
      = throw msg"
    by (simp add: createSession_throws_iff createSession_passes_iff)
next
  assume "js_lt r (Num 1) \<or> js_gt r (Num 5)"
  then show "\<exists>msg. updateSession repository i (u\<lparr>UpdateSessionDTO.performance_rating := Some r\<rparr>)
      = throw msg"
    by (simp add: updateSession_throws_iff updateSession_passes_iff)
next
  assume "createSession repository d = ([Create d], create repository d) \<and> 1 \<le> x \<and> x \<le> 5"
  then show "createSession repository (d\<lparr>CreateSessionDTO.performance_rating := Num x\<rparr>)
      = ([Create (d\<lparr>CreateSessionDTO.performance_rating := Num x\<rparr>)],
         create repository (d\<lparr>CreateSessionDTO.performance_rating := Num x\<rparr>))"
    by (simp add: createSession_passes_iff js_gt_def)
next
  assume "updateSession repository i u = ([Update i u], update repository i u) \<and> 1 \<le> x \<and> x \<le> 5"
  then show "updateSession repository i (u\<lparr>UpdateSessionDTO.performance_rating := Some (Num x)\<rparr>)
      = ([Update i (u\<lparr>UpdateSessionDTO.performance_rating := Some (Num x)\<rparr>)],
         update repository i (u\<lparr>UpdateSessionDTO.performance_rating := Some (Num x)\<rparr>))"
    by (simp add: updateSession_passes_iff js_gt_def)
next
  assume "updateSession repository i u = ([Update i u], update repository i u)"
  then show "updateSession repository i (u\<lparr>UpdateSessionDTO.performance_rating := None\<rparr>)
      = ([Update i (u\<lparr>UpdateSessionDTO.performance_rating := None\<rparr>)],
         update repository i (u\<lparr>UpdateSessionDTO.performance_rating := None\<rparr>))"
    by (simp add: updateSession_passes_iff)
qed

theorem session_rating_range_witness:
  "js_lt (Num 0) (Num 1) \<and> js_gt (Num 6) (Num 5)
   \<and> createSession stub_repository (example_create\<lparr>CreateSessionDTO.performance_rating := Num 0\<rparr>)
       = throw ''Performance rating must be between 1 and 5''
   \<and> createSession stub_repository (example_create\<lparr>CreateSessionDTO.performance_rating := Num 6\<rparr>)
       = throw ''Performance rating must be between 1 and 5''
   \<and> updateSession stub_repository (ascii ''s-1'')
        (example_update\<lparr>UpdateSessionDTO.performance_rating := Some (Num 0)\<rparr>)
       = throw ''Performance rating must be between 1 and 5''
   \<and> updateSession stub_repository (ascii ''s-1'')
        (example_update\<lparr>UpdateSessionDTO.performance_rating := Some (Num 6)\<rparr>)
       = throw ''Performance rating must be between 1 and 5''
   \<and> createSession stub_repository example_create = ([Create example_create], Inr example_session)
   \<and> createSession stub_repository (example_create\<lparr>CreateSessionDTO.performance_rating := Num 5\<rparr>)
       = ([Create (example_create\<lparr>CreateSessionDTO.performance_rating := Num 5\<rparr>)],
          Inr example_session)
   \<and> updateSession stub_repository (ascii ''s-1'') example_update
       = ([Update (ascii ''s-1'') example_update], Inr example_session)
   \<and> updateSession stub_repository (ascii ''s-1'')
        (example_update\<lparr>UpdateSessionDTO.performance_rating := Some (Num 1)\<rparr>)
       = ([Update (ascii ''s-1'')
             (example_update\<lparr>UpdateSessionDTO.performance_rating := Some (Num 1)\<rparr>)],
          Inr example_session)"
  using session_rating_range [of "Num 0" stub_repository example_create "ascii ''s-1''" example_update 5]
    session_rating_range [of "Num 6" stub_repository example_create "ascii ''s-1''" example_update 1]
  by (simp add: session_eval)

theorem session_rating_range_counterexample:
  "createSession stub_repository (example_create\<lparr>CreateSessionDTO.performance_rating := Num (5 / 2)\<rparr>)
     = ([Create (example_create\<lparr>CreateSessionDTO.performance_rating := Num (5 / 2)\<rparr>)],
        Inr example_session)
   \<and> updateSession stub_repository (ascii ''s-1'')
        (example_update\<lparr>UpdateSessionDTO.performance_rating := Some (Num (5 / 2))\<rparr>)
     = ([Update (ascii ''s-1'')
           (example_update\<lparr>UpdateSessionDTO.performance_rating := Some (Num (5 / 2))\<rparr>)],
        Inr example_session)
   \<and> \<not> isInteger (Num (5 / 2))"
  by (simp add: session_eval)

text \<open>
  C3 (as amended). \<^verbatim>\<open>createSession\<close>, and \<^verbatim>\<open>updateSession\<close> when the field is present,
  throw before any repository call for an \<^verbatim>\<open>hours_on_water\<close> that is at most 0 or above
  12 (so for 0 and for 12.1). For a value that is not NaN, in a payload whose other
  fields pass, the payload is accepted exactly when 0 < \<^verbatim>\<open>hours_on_water\<close> <= 12 (so 12
  is accepted); an absent value is not checked by \<^verbatim>\<open>updateSession\<close>.
\<close>

theorem session_hours_range:
  "(js_le h (Num 0) \<or> js_gt h (Num 12) \<longrightarrow>
      (\<exists>msg. createSession repository (d\<lparr>CreateSessionDTO.hours_on_water := h\<rparr>) = throw msg)
      \<and> (\<exists>msg. updateSession repository i (u\<lparr>UpdateSessionDTO.hours_on_water := Some h\<rparr>)
                 = throw msg))
   \<and> (createSession repository d = ([Create d], create repository d) \<and> h \<noteq> NaN \<longrightarrow>
      (createSession repository (d\<lparr>CreateSessionDTO.hours_on_water := h\<rparr>)
       = ([Create (d\<lparr>CreateSessionDTO.hours_on_water := h\<rparr>)],
          create repository (d\<lparr>CreateSessionDTO.hours_on_water := h\<rparr>)))
      = (js_lt (Num 0) h \<and> js_le h (Num 12)))
   \<and> (updateSession repository i u = ([Update i u], update repository i u) \<and> h \<noteq> NaN \<longrightarrow>
      (updateSession repository i (u\<lparr>UpdateSessionDTO.hours_on_water := Some h\<rparr>)
       = ([Update i (u\<lparr>UpdateSessionDTO.hours_on_water := Some h\<rparr>)],
          update repository i (u\<lparr>UpdateSessionDTO.hours_on_water := Some h\<rparr>)))
      = (js_lt (Num 0) h \<and> js_le h (Num 12)))
   \<and> (updateSession repository i u = ([Update i u], update repository i u) \<longrightarrow>
      updateSession repository i (u\<lparr>UpdateSessionDTO.hours_on_water := None\<rparr>)
      = ([Update i (u\<lparr>UpdateSessionDTO.hours_on_water := None\<rparr>)],
         update repository i (u\<lparr>UpdateSessionDTO.hours_on_water := None\<rparr>)))"
proof (intro conjI impI)
  assume "js_le h (Num 0) \<or> js_gt h (Num 12)"
  then show "\<exists>msg. createSession repository (d\<lparr>CreateSessionDTO.hours_on_water := h\<rparr>) = throw msg"
    by (simp add: createSession_throws_iff createSession_passes_iff)
next
  assume "js_le h (Num 0) \<or> js_gt h (Num 12)"
  then show "\<exists>msg. updateSession repository i (u\<lparr>UpdateSessionDTO.hours_on_water := Some h\<rparr>)
      = throw msg"
    by (simp add: updateSession_throws_iff updateSession_passes_iff)
next
  assume "createSession repository d = ([Create d], create repository d) \<and> h \<noteq> NaN"
  then show "(createSession repository (d\<lparr>CreateSessionDTO.hours_on_water := h\<rparr>)
       = ([Create (d\<lparr>CreateSessionDTO.hours_on_water := h\<rparr>)],
          create repository (d\<lparr>CreateSessionDTO.hours_on_water := h\<rparr>)))
      = (js_lt (Num 0) h \<and> js_le h (Num 12))"
    using js_range_iff [of h 0 12] by (simp add: createSession_passes_iff)
next
  assume "updateSession repository i u = ([Update i u], update repository i u) \<and> h \<noteq> NaN"
  then show "(updateSession repository i (u\<lparr>UpdateSessionDTO.hours_on_water := Some h\<rparr>)
       = ([Update i (u\<lparr>UpdateSessionDTO.hours_on_water := Some h\<rparr>)],
          update repository i (u\<lparr>UpdateSessionDTO.hours_on_water := Some h\<rparr>)))
      = (js_lt (Num 0) h \<and> js_le h (Num 12))"
    using js_range_iff [of h 0 12] by (simp add: updateSession_passes_iff)
next
  assume "updateSession repository i u = ([Update i u], update repository i u)"
  then show "updateSession repository i (u\<lparr>UpdateSessionDTO.hours_on_water := None\<rparr>)
      = ([Update i (u\<lparr>UpdateSessionDTO.hours_on_water := None\<rparr>)],
         update repository i (u\<lparr>UpdateSessionDTO.hours_on_water := None\<rparr>))"
    by (simp add: updateSession_passes_iff)
qed

theorem session_hours_range_witness:
  "js_le (Num 0) (Num 0) \<and> js_gt (Num (121 / 10)) (Num 12)
   \<and> createSession stub_repository (example_create\<lparr>CreateSessionDTO.hours_on_water := Num 0\<rparr>)
       = throw ''Hours on water must be between 0 and 12''
   \<and> createSession stub_repository
        (example_create\<lparr>CreateSessionDTO.hours_on_water := Num (121 / 10)\<rparr>)
       = throw ''Hours on water must be between 0 and 12''
   \<and> updateSession stub_repository (ascii ''s-1'')
        (example_update\<lparr>UpdateSessionDTO.hours_on_water := Some (Num 0)\<rparr>)
       = throw ''Hours on water must be between 0 and 12''
   \<and> updateSession stub_repository (ascii ''s-1'')
        (example_update\<lparr>UpdateSessionDTO.hours_on_water := Some (Num (121 / 10))\<rparr>)
       = throw ''Hours on water must be between 0 and 12''
   \<and> createSession stub_repository example_create = ([Create example_create], Inr example_session)
   \<and> createSession stub_repository (example_create\<lparr>CreateSessionDTO.hours_on_water := Num 12\<rparr>)
       = ([Create (example_create\<lparr>CreateSessionDTO.hours_on_water := Num 12\<rparr>)],
          Inr example_session)
   \<and> updateSession stub_repository (ascii ''s-1'') example_update
       = ([Update (ascii ''s-1'') example_update], Inr example_session)
   \<and> updateSession stub_repository (ascii ''s-1'')
        (example_update\<lparr>UpdateSessionDTO.hours_on_water := Some (Num 12)\<rparr>)
       = ([Update (ascii ''s-1'')
             (example_update\<lparr>UpdateSessionDTO.hours_on_water := Some (Num 12)\<rparr>)],
          Inr example_session)"
  using session_hours_range [of "Num 0" stub_repository example_create "ascii ''s-1''" example_update]
    session_hours_range [of "Num (121 / 10)" stub_repository example_create "ascii ''s-1''" example_update]
    session_hours_range [of "Num 12" stub_repository example_create "ascii ''s-1''" example_update]
  by (simp add: session_eval)

theorem session_hours_range_counterexample:
  "createSession stub_repository (example_create\<lparr>CreateSessionDTO.hours_on_water := NaN\<rparr>)
     = ([Create (example_create\<lparr>CreateSessionDTO.hours_on_water := NaN\<rparr>)], Inr example_session)
   \<and> updateSession stub_repository (ascii ''s-1'')
        (example_update\<lparr>UpdateSessionDTO.hours_on_water := Some NaN\<rparr>)
     = ([Update (ascii ''s-1'') (example_update\<lparr>UpdateSessionDTO.hours_on_water := Some NaN\<rparr>)],
        Inr example_session)
   \<and> \<not> (js_lt (Num 0) NaN \<and> js_le NaN (Num 12))"
  by (simp add: session_eval)

subsection \<open>The validation of \<^verbatim>\<open>createEquipmentSettings\<close>\<close>

lemma js_not_outside_iff:
  "(\<not> (js_lt v (Num lo) \<or> js_gt v (Num hi)))
   = (v = NaN \<or> (js_le (Num lo) v \<and> js_le v (Num hi)))"
  by (cases v) (auto simp: js_gt_def)

lemma checkTensions_None_iff:
  "checkTensions ts data = None \<longleftrightarrow>
   (\<forall>t \<in> set ts. \<forall>v. data (ascii t) = Some v \<longrightarrow>
      v = NaN \<or> (js_le (Num 0) v \<and> js_le v (Num 10)))"
proof (induction ts)
  case Nil
  then show ?case by simp
next
  case (Cons t ts)
  show ?case
  proof (cases "data (ascii t)")
    case None
    with Cons show ?thesis by simp
  next
    case (Some w)
    with Cons show ?thesis
      using js_not_outside_iff [of w 0 10] by auto
  qed
qed

lemma createEquipmentSettings_passes_iff:
  "createEquipmentSettings repository sid data
     = ([CreateSettings sid data], createSettings repository sid data) \<longleftrightarrow>
   checkTensions tensions data = None
   \<and> (\<forall>v. data (ascii ''mast_rake'') = Some v \<longrightarrow>
        v = NaN \<or> (js_le (Num (- 5)) v \<and> js_le v (Num 30)))"
proof (cases "checkTensions tensions data")
  case (Some e)
  then show ?thesis by (simp add: createEquipmentSettings_def)
next
  case None
  show ?thesis
  proof (cases "data (ascii ''mast_rake'')")
    case n: None
    with None show ?thesis by (simp add: createEquipmentSettings_def)
  next
    case (Some w)
    with None show ?thesis
      using js_not_outside_iff [of w "- 5" 30]
      by (auto simp: createEquipmentSettings_def throw_def)
  qed
qed

lemma createEquipmentSettings_throws_or_passes:
  "(\<exists>e. createEquipmentSettings repository sid data = ([], Inl e))
   \<or> createEquipmentSettings repository sid data
       = ([CreateSettings sid data], createSettings repository sid data)"
  by (cases "checkTensions tensions data")
     (auto simp: createEquipmentSettings_def throw_def)

text \<open>
  C5 (as amended). Before any repository call \<^verbatim>\<open>createEquipmentSettings\<close> checks the
  keys \<^verbatim>\<open>forestay_tension\<close>, \<^verbatim>\<open>shroud_tension\<close>, \<^verbatim>\<open>main_tension\<close>, \<^verbatim>\<open>cap_tension\<close>,
  \<^verbatim>\<open>lowers_scale\<close>, \<^verbatim>\<open>mains_scale\<close>, \<^verbatim>\<open>cunningham\<close>, \<^verbatim>\<open>outhaul\<close> and \<^verbatim>\<open>vang\<close> against
  [0,10] and \<^verbatim>\<open>mast_rake\<close> against [-5,30], where present. The payload is handed to the
  repository exactly when each of these values that is present lies within its bounds
  or is NaN, and otherwise the method throws with no call made; so a value below its
  lower or above its upper bound throws, a NaN value is not rejected, and no other key
  (\<^verbatim>\<open>cap_hole\<close>, \<^verbatim>\<open>pre_bend\<close>) is checked.
\<close>

theorem createEquipmentSettings_bounds:
  "(createEquipmentSettings repository sid data
      = ([CreateSettings sid data], createSettings repository sid data) \<longleftrightarrow>
      (\<forall>t \<in> set [''forestay_tension'', ''shroud_tension'', ''main_tension'',
                   ''cap_tension'', ''lowers_scale'', ''mains_scale'',
                   ''cunningham'', ''outhaul'', ''vang''].
         \<forall>v. data (ascii t) = Some v \<longrightarrow> v = NaN \<or> (js_le (Num 0) v \<and> js_le v (Num 10)))
      \<and> (\<forall>v. data (ascii ''mast_rake'') = Some v \<longrightarrow>
            v = NaN \<or> (js_le (Num (- 5)) v \<and> js_le v (Num 30))))
   \<and> (createEquipmentSettings repository sid data
        \<noteq> ([CreateSettings sid data], createSettings repository sid data) \<longrightarrow>
      (\<exists>e. createEquipmentSettings repository sid data = ([], Inl e)))
   \<and> (t \<in> set [''forestay_tension'', ''shroud_tension'', ''main_tension'',
                 ''cap_tension'', ''lowers_scale'', ''mains_scale'',
                 ''cunningham'', ''outhaul'', ''vang'']
        \<and> data (ascii t) = Some w \<and> (js_lt w (Num 0) \<or> js_gt w (Num 10)) \<longrightarrow>
      (\<exists>e. createEquipmentSettings repository sid data = ([], Inl e)))
   \<and> (data (ascii ''mast_rake'') = Some w \<and> (js_lt w (Num (- 5)) \<or> js_gt w (Num 30)) \<longrightarrow>
      (\<exists>e. createEquipmentSettings repository sid data = ([], Inl e)))"
proof -
  have passes: "createEquipmentSettings repository sid data
      = ([CreateSettings sid data], createSettings repository sid data) \<longleftrightarrow>
      (\<forall>t \<in> set [''forestay_tension'', ''shroud_tension'', ''main_tension'',
                   ''cap_tension'', ''lowers_scale'', ''mains_scale'',
                   ''cunningham'', ''outhaul'', ''vang''].
         \<forall>v. data (ascii t) = Some v \<longrightarrow> v = NaN \<or> (js_le (Num 0) v \<and> js_le v (Num 10)))
      \<and> (\<forall>v. data (ascii ''mast_rake'') = Some v \<longrightarrow>
            v = NaN \<or> (js_le (Num (- 5)) v \<and> js_le v (Num 30)))"
    unfolding createEquipmentSettings_passes_iff checkTensions_None_iff tensions_def ..
  have throws: "createEquipmentSettings repository sid data
        \<noteq> ([CreateSettings sid data], createSettings repository sid data) \<Longrightarrow>
      \<exists>e. createEquipmentSettings repository sid data = ([], Inl e)"
    using createEquipmentSettings_throws_or_passes [of repository sid data] by blast
  have tension: "\<exists>e. createEquipmentSettings repository sid data = ([], Inl e)"
    if "t \<in> set [''forestay_tension'', ''shroud_tension'', ''main_tension'',
                 ''cap_tension'', ''lowers_scale'', ''mains_scale'',
                 ''cunningham'', ''outhaul'', ''vang'']
        \<and> data (ascii t) = Some w \<and> (js_lt w (Num 0) \<or> js_gt w (Num 10))"
  proof (rule throws)
    from that have "\<not> (w = NaN \<or> (js_le (Num 0) w \<and> js_le w (Num 10)))"
      using js_not_outside_iff [of w 0 10] by blast
    with that show "createEquipmentSettings repository sid data
        \<noteq> ([CreateSettings sid data], createSettings repository sid data)"
      unfolding passes by blast
  qed
  have rake: "\<exists>e. createEquipmentSettings repository sid data = ([], Inl e)"
    if "data (ascii ''mast_rake'') = Some w \<and> (js_lt w (Num (- 5)) \<or> js_gt w (Num 30))"
  proof (rule throws)
    from that have "\<not> (w = NaN \<or> (js_le (Num (- 5)) w \<and> js_le w (Num 30)))"
      using js_not_outside_iff [of w "- 5" 30] by blast
    with that show "createEquipmentSettings repository sid data
        \<noteq> ([CreateSettings sid data], createSettings repository sid data)"
      unfolding passes by blast
  qed
  from passes throws tension rake show ?thesis by blast
qed

lemmas settings_eval = createEquipmentSettings_def tensions_def ascii_def js_gt_def
  stub_repository_def throw_def

theorem createEquipmentSettings_bounds_witness:
  "js_gt (Num 11) (Num 10)
   \<and> createEquipmentSettings stub_repository (ascii ''s-1'') [ascii ''vang'' \<mapsto> Num 11]
       = ([], Inl (Error (ascii ''vang must be between 0 and 10'')))
   \<and> js_gt (Num 31) (Num 30)
   \<and> createEquipmentSettings stub_repository (ascii ''s-1'') [ascii ''mast_rake'' \<mapsto> Num 31]
       = throw ''Mast rake must be between -5 and 30 degrees''
   \<and> createEquipmentSettings stub_repository (ascii ''s-1'')
        [ascii ''forestay_tension'' \<mapsto> Num 10, ascii ''mast_rake'' \<mapsto> Num (- 5)]
       = ([CreateSettings (ascii ''s-1'')
             [ascii ''forestay_tension'' \<mapsto> Num 10, ascii ''mast_rake'' \<mapsto> Num (- 5)]],
          Inr example_settings_entity)
   \<and> createEquipmentSettings stub_repository (ascii ''s-1'')
        [ascii ''cap_hole'' \<mapsto> Num (- 7), ascii ''pre_bend'' \<mapsto> Num 9999]
       = ([CreateSettings (ascii ''s-1'')
             [ascii ''cap_hole'' \<mapsto> Num (- 7), ascii ''pre_bend'' \<mapsto> Num 9999]],
          Inr example_settings_entity)"
  using createEquipmentSettings_bounds
      [of stub_repository "ascii ''s-1''" "[ascii ''vang'' \<mapsto> Num 11]" "''vang''" "Num 11"]
    createEquipmentSettings_bounds
      [of stub_repository "ascii ''s-1''" "[ascii ''mast_rake'' \<mapsto> Num 31]" "''vang''" "Num 31"]
    createEquipmentSettings_bounds
      [of stub_repository "ascii ''s-1''"
          "[ascii ''forestay_tension'' \<mapsto> Num 10, ascii ''mast_rake'' \<mapsto> Num (- 5)]"
          "''vang''" "Num 10"]
    createEquipmentSettings_bounds
      [of stub_repository "ascii ''s-1''"
          "[ascii ''cap_hole'' \<mapsto> Num (- 7), ascii ''pre_bend'' \<mapsto> Num 9999]"
          "''vang''" "Num 10"]
  by (simp add: settings_eval)

theorem createEquipmentSettings_bounds_counterexample:
  "createEquipmentSettings stub_repository (ascii ''s-1'') [ascii ''vang'' \<mapsto> NaN]
     = ([CreateSettings (ascii ''s-1'') [ascii ''vang'' \<mapsto> NaN]], Inr example_settings_entity)
   \<and> \<not> (js_le (Num 0) NaN \<and> js_le NaN (Num 10))"
  by (simp add: settings_eval)

subsection \<open>The repositories\<close>

text \<open>
  C4. When the request of \<^verbatim>\<open>SessionRepository.getById\<close> is rejected, as it is for a
  404 answer of the backend, the repository returns \<^verbatim>\<open>null\<close> and throws nothing, and so
  does \<^verbatim>\<open>SessionService.getSessionById\<close> on that repository;
  \<^verbatim>\<open>EquipmentRepository.getById\<close> behaves the same way.
\<close>

theorem getById_not_found_is_null:
  "(get_session (sessions_basePath @ ascii ''/'' @ i) = Inl e \<longrightarrow>
      SessionRepository_getById get_session i = Inr None
      \<and> getSessionById (repository\<lparr>getById := SessionRepository_getById get_session\<rparr>) i
        = ([GetById i], Inr None))
   \<and> (get_equipment (equipment_basePath @ ascii ''/'' @ i) = Inl e \<longrightarrow>
      EquipmentRepository_getById get_equipment i = Inr None)"
  by (simp add: SessionRepository_getById_def EquipmentRepository_getById_def getSessionById_def)

theorem getById_not_found_is_null_witness:
  "response_status not_found = Some 404
   \<and> get_not_found (sessions_basePath @ ascii ''/'' @ ascii ''s-404'')
       = (Inl (Error (ascii ''Not found'')) :: SessionResponse promise)
   \<and> SessionRepository_getById get_not_found (ascii ''s-404'') = Inr None
   \<and> getSessionById (stub_repository\<lparr>getById := SessionRepository_getById get_not_found\<rparr>)
        (ascii ''s-404'')
       = ([GetById (ascii ''s-404'')], Inr None)
   \<and> EquipmentRepository_getById get_not_found (ascii ''eq-404'') = Inr None"
  using getById_not_found_is_null
      [of get_not_found "ascii ''s-404''" "Error (ascii ''Not found'')" stub_repository get_not_found]
    getById_not_found_is_null
      [of get_not_found "ascii ''eq-404''" "Error (ascii ''Not found'')" stub_repository get_not_found]
  by (simp add: get_not_found_def not_found_def rejectResponse_def ascii_def)

text \<open>
  \<^verbatim>\<open>mapToEntity\<close> of either repository copies every field of the wire response into
  the entity field of the same name in camelCase, and a session gets an empty list of
  equipment ids.
\<close>

lemma mapToEntity_copies_fields:
  "Session.id' (SessionRepository_mapToEntity r) = SessionResponse.id' r
   \<and> equipmentIds (SessionRepository_mapToEntity r) = []
   \<and> Session.date (SessionRepository_mapToEntity r) = SessionResponse.date r
   \<and> Session.location (SessionRepository_mapToEntity r) = SessionResponse.location r
   \<and> windSpeedMin (SessionRepository_mapToEntity r) = SessionResponse.wind_speed_min r
   \<and> windSpeedMax (SessionRepository_mapToEntity r) = SessionResponse.wind_speed_max r
   \<and> waveType (SessionRepository_mapToEntity r) = SessionResponse.wave_type r
   \<and> waveDirection (SessionRepository_mapToEntity r) = SessionResponse.wave_direction r
   \<and> hoursOnWater (SessionRepository_mapToEntity r) = SessionResponse.hours_on_water r
   \<and> performanceRating (SessionRepository_mapToEntity r) = SessionResponse.performance_rating r
   \<and> Session.notes (SessionRepository_mapToEntity r) = SessionResponse.notes r
   \<and> createdBy (SessionRepository_mapToEntity r) = SessionResponse.created_by r
   \<and> Session.createdAt (SessionRepository_mapToEntity r) = SessionResponse.created_at r
   \<and> Session.updatedAt (SessionRepository_mapToEntity r) = SessionResponse.updated_at r
   \<and> Equipment.id' (EquipmentRepository_mapToEntity q) = EquipmentResponse.id' q
   \<and> Equipment.name (EquipmentRepository_mapToEntity q) = EquipmentResponse.name q
   \<and> Equipment.type (EquipmentRepository_mapToEntity q) = EquipmentResponse.type q
   \<and> Equipment.manufacturer (EquipmentRepository_mapToEntity q) = EquipmentResponse.manufacturer q
   \<and> Equipment.model (EquipmentRepository_mapToEntity q) = EquipmentResponse.model q
   \<and> purchaseDate (EquipmentRepository_mapToEntity q) = EquipmentResponse.purchase_date q
   \<and> Equipment.notes (EquipmentRepository_mapToEntity q) = EquipmentResponse.notes q
   \<and> Equipment.active (EquipmentRepository_mapToEntity q) = EquipmentResponse.active q
   \<and> Equipment.wear (EquipmentRepository_mapToEntity q) = EquipmentResponse.wear q
   \<and> ownerId (EquipmentRepository_mapToEntity q) = EquipmentResponse.owner_id q
   \<and> Equipment.createdAt (EquipmentRepository_mapToEntity q) = EquipmentResponse.created_at q
   \<and> Equipment.updatedAt (EquipmentRepository_mapToEntity q) = EquipmentResponse.updated_at q
   \<and> ageInDays (EquipmentRepository_mapToEntity q) = EquipmentResponse.age_in_days q
   \<and> needsReplacement (EquipmentRepository_mapToEntity q) = EquipmentResponse.needs_replacement q"
  by (simp add: SessionRepository_mapToEntity_def EquipmentRepository_mapToEntity_def)

subsection \<open>Rounding\<close>

lemmas double_eval = round_double_def expo_def expo_up.simps expo_down.simps pow2_def
  roundTiesToEven_def Let_def

lemma expo_up_bounds:
  "1 \<le> x \<Longrightarrow> e \<le> expo_up x e \<and> 2 ^ nat (expo_up x e - e) \<le> x
     \<and> x < 2 * 2 ^ nat (expo_up x e - e)"
proof (induction x e rule: expo_up.induct)
  case (1 x e)
  show ?case
  proof (cases "2 \<le> x")
    case True
    then have ih: "e + 1 \<le> expo_up (x / 2) (e + 1)
        \<and> 2 ^ nat (expo_up (x / 2) (e + 1) - (e + 1)) \<le> x / 2
        \<and> x / 2 < 2 * 2 ^ nat (expo_up (x / 2) (e + 1) - (e + 1))"
      using "1.IH" by simp
    have eq: "expo_up x e = expo_up (x / 2) (e + 1)"
      using True by (subst expo_up.simps) simp
    from ih have "nat (expo_up x e - e) = Suc (nat (expo_up (x / 2) (e + 1) - (e + 1)))"
      unfolding eq by linarith
    with ih show ?thesis unfolding eq by simp
  next
    case False
    then have "expo_up x e = e" by (subst expo_up.simps) simp
    with False "1.prems" show ?thesis by simp
  qed
qed

lemma roundTiesToEven_of_int: "roundTiesToEven (of_int n) = n"
  by (simp add: roundTiesToEven_def)

lemma round_double_of_int:
  assumes "\<bar>z\<bar> < 2 ^ 53"
  shows "round_double (of_int z) = Num (of_int z)"
proof (cases "z = 0")
  case True
  then show ?thesis by (simp add: round_double_def roundTiesToEven_def)
next
  case False
  define x :: real where "x = \<bar>of_int z\<bar>"
  have x1: "1 \<le> x" using False by (simp add: x_def)
  define k where "k = expo_up x 0"
  from expo_up_bounds [OF x1, of 0]
  have k0: "0 \<le> k" and lo: "2 ^ nat k \<le> x"
    by (simp_all add: k_def)
  have "x < 2 ^ 53" using assms unfolding x_def
    by (metis of_int_abs of_int_less_numeral_power_cancel_iff)
  with lo have "(2::real) ^ nat k < 2 ^ 53" by linarith
  have "nat k < 53"
  proof (rule ccontr)
    assume "\<not> nat k < 53"
    then have "53 \<le> nat k" by simp
    then have "(2::real) ^ 53 \<le> 2 ^ nat k" by (rule power_increasing) simp
    with \<open>(2::real) ^ nat k < 2 ^ 53\<close> show False by linarith
  qed
  with k0 have k52: "k \<le> 52" by linarith
  define m where "m = nat (52 - k)"
  have u: "pow2 (expo (of_int z) - 52) = 1 / 2 ^ m"
  proof (cases "k = 52")
    case True
    then show ?thesis using x1 by (simp add: pow2_def expo_def k_def x_def m_def)
  next
    case False
    with k52 have "k - 52 < 0" by simp
    then show ?thesis using x1 by (simp add: pow2_def expo_def k_def x_def m_def)
  qed
  have q: "of_int z / (1 / 2 ^ m) = (of_int (z * 2 ^ m) :: real)" by simp
  have "\<bar>of_int z :: real\<bar> < 2 ^ 1024"
  proof -
    have "(2::real) ^ 53 \<le> 2 ^ 1024" by (rule power_increasing) simp_all
    with \<open>x < 2 ^ 53\<close> show ?thesis unfolding x_def by linarith
  qed
  then show ?thesis
    unfolding round_double_def Let_def u q roundTiesToEven_of_int by simp
qed

lemma js_add_of_int:
  "\<bar>a + b\<bar> < 2 ^ 53 \<Longrightarrow> js_add (Num (of_int a)) (Num (of_int b)) = Num (of_int (a + b))"
  using round_double_of_int [of "a + b"] by simp

subsection \<open>Aggregation over session lists\<close>

lemma foldl_ratings_exact:
  "map performanceRating ss = map (\<lambda>n. Num (of_int n)) ns
   \<Longrightarrow> \<bar>a\<bar> + (\<Sum>n\<leftarrow>ns. \<bar>n\<bar>) < 2 ^ 53
   \<Longrightarrow> foldl (\<lambda>sum s. js_add sum (performanceRating s)) (Num (of_int a)) ss
       = Num (of_int (a + sum_list ns))"
proof (induction ss arbitrary: a ns)
  case Nil
  then show ?case by simp
next
  case (Cons s ss)
  then obtain n ns' where ns: "ns = n # ns'"
    and s: "performanceRating s = Num (of_int n)"
    and rest: "map performanceRating ss = map (\<lambda>n. Num (of_int n)) ns'"
    by (cases ns) auto
  have nonneg: "(0::int) \<le> (\<Sum>n\<leftarrow>ns'. \<bar>n\<bar>)"
    by (rule sum_list_nonneg) auto
  have tri: "\<bar>a + n\<bar> \<le> \<bar>a\<bar> + \<bar>n\<bar>"
    by (rule abs_triangle_ineq)
  from Cons.prems(2) have all: "\<bar>a\<bar> + (\<bar>n\<bar> + (\<Sum>n\<leftarrow>ns'. \<bar>n\<bar>)) < 2 ^ 53"
    unfolding ns by simp
  from all nonneg tri have small: "\<bar>a + n\<bar> < 2 ^ 53"
    by linarith
  from all tri have bound: "\<bar>a + n\<bar> + (\<Sum>n\<leftarrow>ns'. \<bar>n\<bar>) < 2 ^ 53"
    by linarith
  have "foldl (\<lambda>sum s. js_add sum (performanceRating s)) (Num (of_int a)) (s # ss)
      = foldl (\<lambda>sum s. js_add sum (performanceRating s)) (Num (of_int (a + n))) ss"
    using small by (simp add: s js_add_of_int del: js_add.simps)
  also have "\<dots> = Num (of_int (a + n + sum_list ns'))"
    using rest bound by (rule Cons.IH)
  finally show ?case by (simp add: ns add.assoc)
qed

lemma abs_sum_list_le: "\<bar>sum_list ns\<bar> \<le> (\<Sum>n\<leftarrow>ns. \<bar>n :: int\<bar>)"
  by (induction ns) auto

lemma sum_list_of_int: "sum_list (map of_int ns) = (of_int (sum_list ns) :: real)"
  by (induction ns) simp_all

lemma arithmetic_mean_of_int:
  "arithmetic_mean (map of_int ns) = of_int (sum_list ns) / real (length ns)"
  by (simp add: arithmetic_mean_def sum_list_of_int)

lemma calculateAveragePerformance_whole:
  assumes "sessions \<noteq> []"
    and "map performanceRating sessions = map (\<lambda>n. Num (of_int n)) ns"
    and "(\<Sum>n\<leftarrow>ns. \<bar>n\<bar>) < 2 ^ 53"
  shows "calculateAveragePerformance sessions = round_double (arithmetic_mean (map of_int ns))"
proof -
  have len: "length sessions = length ns"
    using assms(2) length_map [of performanceRating sessions]
      length_map [of "\<lambda>n. Num (of_int n)" ns] by simp
  have "foldl (\<lambda>sum s. js_add sum (performanceRating s)) (Num (of_int 0)) sessions
      = Num (of_int (0 + sum_list ns))"
    using assms(2) by (rule foldl_ratings_exact) (use assms(3) in simp)
  then have total: "foldl (\<lambda>sum s. js_add sum (performanceRating s)) (Num 0) sessions
      = Num (of_int (sum_list ns))"
    by simp
  from assms(1) have "real (length sessions) \<noteq> 0" by simp
  then show ?thesis
    using assms(1)
    by (simp add: calculateAveragePerformance_def total arithmetic_mean_of_int len)
qed

text \<open>
  C6 (as amended). For every non-empty list of sessions \<^verbatim>\<open>calculateAveragePerformance\<close>
  returns the sum of the ratings divided by the count as double arithmetic computes
  them: the ratings are added from left to right, each sum rounded, and the quotient is
  rounded. For whole-number ratings (the sum of their magnitudes below 2^53) the result
  is the arithmetic mean rounded to the nearest double, and the mean itself when the
  mean is a whole number; for ratings 3, 4, 5 it is 4. In general it is not the exact
  mean: ratings 1, 2, 2 give 1.6666666666666667.
\<close>

theorem calculateAveragePerformance_is_mean:
  "(sessions \<noteq> [] \<longrightarrow>
      calculateAveragePerformance sessions
      = js_div (foldl js_add (Num 0) (map performanceRating sessions))
          (Num (real (length sessions))))
   \<and> (sessions \<noteq> [] \<and> map performanceRating sessions = map (\<lambda>n. Num (of_int n)) ns
        \<and> (\<Sum>n\<leftarrow>ns. \<bar>n\<bar>) < 2 ^ 53 \<longrightarrow>
      calculateAveragePerformance sessions = round_double (arithmetic_mean (map of_int ns)))
   \<and> (sessions \<noteq> [] \<and> map performanceRating sessions = map (\<lambda>n. Num (of_int n)) ns
        \<and> (\<Sum>n\<leftarrow>ns. \<bar>n\<bar>) < 2 ^ 53 \<and> arithmetic_mean (map of_int ns) = of_int k \<longrightarrow>
      calculateAveragePerformance sessions = Num (of_int k))
   \<and> (map performanceRating sessions = [Num 3, Num 4, Num 5] \<longrightarrow>
      calculateAveragePerformance sessions = Num 4)"
proof (intro conjI impI)
  assume "sessions \<noteq> []"
  then show "calculateAveragePerformance sessions
      = js_div (foldl js_add (Num 0) (map performanceRating sessions))
          (Num (real (length sessions)))"
    by (simp add: calculateAveragePerformance_def foldl_map)
next
  assume "sessions \<noteq> [] \<and> map performanceRating sessions = map (\<lambda>n. Num (of_int n)) ns
        \<and> (\<Sum>n\<leftarrow>ns. \<bar>n\<bar>) < 2 ^ 53"
  then show "calculateAveragePerformance sessions
      = round_double (arithmetic_mean (map of_int ns))"
    by (simp add: calculateAveragePerformance_whole)
next
  assume a: "sessions \<noteq> [] \<and> map performanceRating sessions = map (\<lambda>n. Num (of_int n)) ns
        \<and> (\<Sum>n\<leftarrow>ns. \<bar>n\<bar>) < 2 ^ 53 \<and> arithmetic_mean (map of_int ns) = of_int k"
  then have ns: "ns \<noteq> []" by auto
  from a have mean: "of_int (sum_list ns) = (of_int k :: real) * real (length ns)"
    using ns by (simp add: arithmetic_mean_of_int field_simps)
  then have "sum_list ns = k * int (length ns)"
    by (metis of_int_eq_iff of_int_mult of_int_of_nat_eq)
  moreover have "1 \<le> int (length ns)" using ns by (cases ns) auto
  ultimately have "\<bar>k\<bar> \<le> \<bar>sum_list ns\<bar>"
    by (simp add: abs_mult mult_le_cancel_left1)
  with a abs_sum_list_le [of ns] have "\<bar>k\<bar> < 2 ^ 53" by linarith
  then have "round_double (of_int k) = Num (of_int k)" by (rule round_double_of_int)
  with a show "calculateAveragePerformance sessions = Num (of_int k)"
    by (simp add: calculateAveragePerformance_whole)
next
  assume a: "map performanceRating sessions = [Num 3, Num 4, Num 5]"
  then have "sessions \<noteq> []" by auto
  moreover from a have "map performanceRating sessions = map (\<lambda>n. Num (of_int n)) [3, 4, 5]"
    by simp
  ultimately have "calculateAveragePerformance sessions
      = round_double (arithmetic_mean (map of_int [3, 4, 5]))"
    by (rule calculateAveragePerformance_whole) simp
  also have "arithmetic_mean (map of_int [3, 4, 5]) = of_int 4"
    by (simp add: arithmetic_mean_def)
  also have "round_double (of_int 4) = Num (of_int 4)"
    by (rule round_double_of_int) simp
  finally show "calculateAveragePerformance sessions = Num 4" by simp
qed

theorem calculateAveragePerformance_is_mean_witness:
  "calculateAveragePerformance
     [example_session\<lparr>performanceRating := Num 3\<rparr>, example_session\<lparr>performanceRating := Num 4\<rparr>,
      example_session\<lparr>performanceRating := Num 5\<rparr>] = Num 4
   \<and> arithmetic_mean [3, 4, 5] = 4
   \<and> calculateAveragePerformance
     [example_session\<lparr>performanceRating := Num 1\<rparr>, example_session\<lparr>performanceRating := Num 2\<rparr>,
      example_session\<lparr>performanceRating := Num 2\<rparr>] = round_double (5 / 3)
   \<and> calculateAveragePerformance
     [example_session\<lparr>performanceRating := Num 2\<rparr>, example_session\<lparr>performanceRating := Num 4\<rparr>]
     = Num 3"
proof -
  have 1: "calculateAveragePerformance
     [example_session\<lparr>performanceRating := Num 3\<rparr>, example_session\<lparr>performanceRating := Num 4\<rparr>,
      example_session\<lparr>performanceRating := Num 5\<rparr>] = Num 4"
    using calculateAveragePerformance_is_mean
      [THEN conjunct2, THEN conjunct2, THEN conjunct2,
       of "[example_session\<lparr>performanceRating := Num 3\<rparr>,
            example_session\<lparr>performanceRating := Num 4\<rparr>,
            example_session\<lparr>performanceRating := Num 5\<rparr>]"]
    by simp
  have 2: "arithmetic_mean [3, 4, 5] = 4"
    by (simp add: arithmetic_mean_def)
  have 3: "calculateAveragePerformance
     [example_session\<lparr>performanceRating := Num 1\<rparr>, example_session\<lparr>performanceRating := Num 2\<rparr>,
      example_session\<lparr>performanceRating := Num 2\<rparr>] = round_double (5 / 3)"
    using calculateAveragePerformance_is_mean
      [THEN conjunct2, THEN conjunct1,
       of "[example_session\<lparr>performanceRating := Num 1\<rparr>,
            example_session\<lparr>performanceRating := Num 2\<rparr>,
            example_session\<lparr>performanceRating := Num 2\<rparr>]" "[1, 2, 2]"]
    by (simp add: arithmetic_mean_def)
  have 4: "calculateAveragePerformance
     [example_session\<lparr>performanceRating := Num 2\<rparr>, example_session\<lparr>performanceRating := Num 4\<rparr>]
     = Num 3"
    using calculateAveragePerformance_is_mean
      [THEN conjunct2, THEN conjunct2, THEN conjunct1,
       of "[example_session\<lparr>performanceRating := Num 2\<rparr>,
            example_session\<lparr>performanceRating := Num 4\<rparr>]" "[2, 4]" 3]
    by (simp add: arithmetic_mean_def)
  from 1 2 3 4 show ?thesis by blast
qed

theorem calculateAveragePerformance_is_mean_counterexample:
  "calculateAveragePerformance
     [example_session\<lparr>performanceRating := Num 1\<rparr>, example_session\<lparr>performanceRating := Num 2\<rparr>,
      example_session\<lparr>performanceRating := Num 2\<rparr>]
     = Num (7505999378950827 / 4503599627370496)
   \<and> arithmetic_mean [1, 2, 2] = 5 / 3
   \<and> (7505999378950827 / 4503599627370496 :: real) \<noteq> 5 / 3"
  by (simp add: calculateAveragePerformance_def arithmetic_mean_def double_eval)

lemma isHeavyWeather_not_isLightWeather: "\<not> (isHeavyWeather s \<and> isLightWeather s)"
  by (cases "averageWindSpeed s") (auto simp: isHeavyWeather_def isLightWeather_def js_gt_def)

text \<open>
  C9. No session is both heavy weather and light weather, and
  \<^verbatim>\<open>getSessionsByCondition\<close> with \<^verbatim>\<open>'heavy'\<close>, \<^verbatim>\<open>'light'\<close> and \<^verbatim>\<open>'medium'\<close> partitions
  a list of sessions: the three results together hold exactly the sessions of the
  input, each as often as the input does, and every session of the input is in exactly
  one of them.
\<close>

theorem getSessionsByCondition_partition:
  "\<not> (isHeavyWeather s \<and> isLightWeather s)
   \<and> mset (getSessionsByCondition sessions heavy) + mset (getSessionsByCondition sessions light)
       + mset (getSessionsByCondition sessions medium) = mset sessions
   \<and> (s \<in> set sessions \<longrightarrow>
        (s \<in> set (getSessionsByCondition sessions heavy)
          \<and> s \<notin> set (getSessionsByCondition sessions light)
          \<and> s \<notin> set (getSessionsByCondition sessions medium))
        \<or> (s \<notin> set (getSessionsByCondition sessions heavy)
          \<and> s \<in> set (getSessionsByCondition sessions light)
          \<and> s \<notin> set (getSessionsByCondition sessions medium))
        \<or> (s \<notin> set (getSessionsByCondition sessions heavy)
          \<and> s \<notin> set (getSessionsByCondition sessions light)
          \<and> s \<in> set (getSessionsByCondition sessions medium)))"
proof (intro conjI impI)
  show "\<not> (isHeavyWeather s \<and> isLightWeather s)"
    by (rule isHeavyWeather_not_isLightWeather)
next
  show "mset (getSessionsByCondition sessions heavy) + mset (getSessionsByCondition sessions light)
       + mset (getSessionsByCondition sessions medium) = mset sessions"
    using isHeavyWeather_not_isLightWeather by (induction sessions) auto
next
  assume "s \<in> set sessions"
  then show "(s \<in> set (getSessionsByCondition sessions heavy)
          \<and> s \<notin> set (getSessionsByCondition sessions light)
          \<and> s \<notin> set (getSessionsByCondition sessions medium))
        \<or> (s \<notin> set (getSessionsByCondition sessions heavy)
          \<and> s \<in> set (getSessionsByCondition sessions light)
          \<and> s \<notin> set (getSessionsByCondition sessions medium))
        \<or> (s \<notin> set (getSessionsByCondition sessions heavy)
          \<and> s \<notin> set (getSessionsByCondition sessions light)
          \<and> s \<in> set (getSessionsByCondition sessions medium))"
    using isHeavyWeather_not_isLightWeather [of s] by auto
qed

theorem getSessionsByCondition_partition_witness:
  "getSessionsByCondition
     [example_session\<lparr>waveType := Large\<rparr>,
      example_session\<lparr>windSpeedMin := Num 4, windSpeedMax := Num 6, waveType := Flat\<rparr>,
      example_session] heavy
     = [example_session\<lparr>waveType := Large\<rparr>]
   \<and> getSessionsByCondition
     [example_session\<lparr>waveType := Large\<rparr>,
      example_session\<lparr>windSpeedMin := Num 4, windSpeedMax := Num 6, waveType := Flat\<rparr>,
      example_session] light
     = [example_session\<lparr>windSpeedMin := Num 4, windSpeedMax := Num 6, waveType := Flat\<rparr>]
   \<and> getSessionsByCondition
     [example_session\<lparr>waveType := Large\<rparr>,
      example_session\<lparr>windSpeedMin := Num 4, windSpeedMax := Num 6, waveType := Flat\<rparr>,
      example_session] medium
     = [example_session]
   \<and> example_session \<notin> set [example_session\<lparr>waveType := Large\<rparr>]
   \<and> example_session
       \<notin> set [example_session\<lparr>windSpeedMin := Num 4, windSpeedMax := Num 6, waveType := Flat\<rparr>]"
  using getSessionsByCondition_partition
    [of example_session
        "[example_session\<lparr>waveType := Large\<rparr>,
          example_session\<lparr>windSpeedMin := Num 4, windSpeedMax := Num 6, waveType := Flat\<rparr>,
          example_session]"]
  by (simp add: isHeavyWeather_def isLightWeather_def averageWindSpeed_def js_gt_def
      example_session_def double_eval)

text \<open>
  C10. On the empty list \<^verbatim>\<open>calculateAveragePerformance\<close> returns 0, without dividing,
  and \<^verbatim>\<open>calculateTotalHours\<close> returns 0.
\<close>

theorem aggregates_of_empty_list:
  "calculateAveragePerformance [] = Num 0 \<and> calculateTotalHours [] = Num 0"
  by (simp add: calculateAveragePerformance_def calculateTotalHours_def)

subsection \<open>Retiring and reactivating in the hook\<close>

lemma find_id_unchanged:
  "find (\<lambda>e. Equipment.id' (((objects st)(r := (objects st r)\<lparr>Equipment.active := b\<rparr>)) e) = i) xs
   = find (\<lambda>e. Equipment.id' (objects st e) = i) xs"
  by (rule arg_cong [where f = "\<lambda>p. find p xs"]) (auto simp: fun_eq_iff)

lemma retireEquipment_state:
  assumes "retire repository i = Inr ok"
    and "find (\<lambda>e. Equipment.id' (objects st e) = i) captured = Some r"
  shows "objects (fst (useEquipment_retireEquipment repository captured i st))
           = (objects st)(r := (objects st r)\<lparr>Equipment.active := False\<rparr>)
         \<and> equipment (fst (useEquipment_retireEquipment repository captured i st)) = equipment st"
  using assms
  by (simp add: useEquipment_retireEquipment_def EquipmentService_retireEquipment_def Let_def
      split: sum.splits)

lemma reactivateEquipment_state:
  assumes "reactivate repository i = Inr ok"
    and "find (\<lambda>e. Equipment.id' (objects st e) = i) captured = Some r"
  shows "objects (fst (useEquipment_reactivateEquipment repository captured i st))
           = (objects st)(r := (objects st r)\<lparr>Equipment.active := True\<rparr>)
         \<and> equipment (fst (useEquipment_reactivateEquipment repository captured i st)) = equipment st"
  using assms
  by (simp add: useEquipment_reactivateEquipment_def EquipmentService_reactivateEquipment_def Let_def
      split: sum.splits)

text \<open>
  C8. Where the equipment with the given id is in the list of the hook and the retire
  and reactivate requests succeed, \<^verbatim>\<open>retireEquipment\<close> followed by
  \<^verbatim>\<open>reactivateEquipment\<close> sets the \<^verbatim>\<open>active\<close> field of that entry to false and then to
  true, changes no other field of the entry, no other object, and leaves the list
  holding the same entries.
\<close>

theorem retire_then_reactivate:
  assumes found: "find (\<lambda>e. Equipment.id' (objects st e) = i) (equipment st) = Some r"
    and retired: "retire repository1 i = Inr ok1"
    and reactivated: "reactivate repository2 i = Inr ok2"
    and st1: "st1 = fst (useEquipment_retireEquipment repository1 (equipment st) i st)"
    and st2: "st2 = fst (useEquipment_reactivateEquipment repository2 (equipment st1) i st1)"
  shows "Equipment.active (objects st1 r) = False \<and> Equipment.active (objects st2 r) = True
     \<and> objects st1 r = (objects st r)\<lparr>Equipment.active := False\<rparr>
     \<and> objects st2 r = (objects st r)\<lparr>Equipment.active := True\<rparr>
     \<and> (\<forall>r'. r' \<noteq> r \<longrightarrow> objects st1 r' = objects st r' \<and> objects st2 r' = objects st r')
     \<and> equipment st1 = equipment st \<and> equipment st2 = equipment st"
proof -
  have 1: "objects st1 = (objects st)(r := (objects st r)\<lparr>Equipment.active := False\<rparr>)
      \<and> equipment st1 = equipment st"
    unfolding st1 using retired found by (rule retireEquipment_state)
  then have o1: "objects st1 = (objects st)(r := (objects st r)\<lparr>Equipment.active := False\<rparr>)"
    and e1: "equipment st1 = equipment st"
    by blast+
  have "find (\<lambda>e. Equipment.id' (objects st1 e) = i) (equipment st1) = Some r"
    unfolding o1 e1 find_id_unchanged by (rule found)
  with reactivated
  have 2: "objects st2 = (objects st1)(r := (objects st1 r)\<lparr>Equipment.active := True\<rparr>)
      \<and> equipment st2 = equipment st1"
    unfolding st2 by (rule reactivateEquipment_state)
  from 1 2 show ?thesis by simp
qed

theorem retire_then_reactivate_witness:
  "find (\<lambda>e. Equipment.id' (objects example_state e) = ascii ''eq-1'') (equipment example_state)
     = Some 0
   \<and> Equipment.active (objects example_state 0) = True
   \<and> Equipment.active (objects example_retired 0) = False
   \<and> objects example_reactivated 0 = objects example_state 0
   \<and> objects example_retired 1 = objects example_state 1
   \<and> objects example_reactivated 1 = objects example_state 1
   \<and> equipment example_reactivated = [0, 1]"
proof -
  have found: "find (\<lambda>e. Equipment.id' (objects example_state e) = ascii ''eq-1'')
      (equipment example_state) = Some 0"
    by (simp add: example_state_def example_equipment_def ascii_def)
  have r1: "retire stub_equipment_repository (ascii ''eq-1'') = Inr True"
    and r2: "reactivate stub_equipment_repository (ascii ''eq-1'') = Inr True"
    by (simp_all add: stub_equipment_repository_def)
  have act: "Equipment.active (objects example_state 0) = True"
    and eq: "equipment example_state = [0, 1]"
    by (simp_all add: example_state_def example_equipment_def)
  show ?thesis
    using found act eq
      retire_then_reactivate [OF found r1 r2 example_retired_def example_reactivated_def]
    by simp
qed

end
